theory Spec2Isabelle
  imports Complex_Main
begin

section \<open>JavaScript values\<close>

text \<open>
  The client of \<^verbatim>\<open>src/index.js\<close> is the class \<^verbatim>\<open>HololiveWiki\<close>.  The file holds
  two versions of the class; the model follows the second, current one (from line 106 on),
  which has the request scheduler.  The client is configured by an options object whose
  properties may hold any JavaScript value.  A number is an IEEE double: a finite value,
  one of the two infinities, or NaN.  Only comparisons and additions of finite values matter below, so a
  finite double is represented by the real number it denotes.

  Strings are lists of code units; the model covers code units below 256, so the only
  line terminators that can occur are line feed and carriage return.
\<close>

datatype jsnum = Fin real | NaN | PosInf | NegInf

datatype jsval =
    JUndefined
  | JNull
  | JBool bool
  | JNum jsnum
  | JStr string
  | JArr "jsval list"
  | JObj "(string \<times> jsval) list"

datatype error = TypeError | RangeError

text \<open>The relational operator \<^verbatim>\<open><\<close> on numbers: false as soon as one side is NaN.\<close>

fun num_lt :: "jsnum \<Rightarrow> jsnum \<Rightarrow> bool" where
  "num_lt NaN _ = False"
| "num_lt _ NaN = False"
| "num_lt (Fin a) (Fin b) = (a < b)"
| "num_lt (Fin a) PosInf = True"
| "num_lt NegInf (Fin b) = True"
| "num_lt NegInf PosInf = True"
| "num_lt _ _ = False"

definition num_gt :: "jsnum \<Rightarrow> jsnum \<Rightarrow> bool" where
  "num_gt a b = num_lt b a"

fun typeof :: "jsval \<Rightarrow> string" where
  "typeof JUndefined = ''undefined''"
| "typeof JNull = ''object''"
| "typeof (JBool b) = ''boolean''"
| "typeof (JNum n) = ''number''"
| "typeof (JStr s) = ''string''"
| "typeof (JArr xs) = ''object''"
| "typeof (JObj kvs) = ''object''"

fun numOf :: "jsval \<Rightarrow> jsnum" where
  "numOf (JNum n) = n"
| "numOf _ = NaN"

fun strOf :: "jsval \<Rightarrow> string" where
  "strOf (JStr s) = s"
| "strOf _ = []"

text \<open>
  Reading a property: an own property of an object, and \<^verbatim>\<open>undefined\<close> when the
  property is absent.  Reading any property of \<^verbatim>\<open>null\<close> or \<^verbatim>\<open>undefined\<close>
  throws a TypeError.  None of the property names read by the constructor exists on a
  boolean, a number, a string or an array.
\<close>

fun getProp :: "jsval \<Rightarrow> string \<Rightarrow> error + jsval" where
  "getProp JUndefined k = Inl TypeError"
| "getProp JNull k = Inl TypeError"
| "getProp (JObj kvs) k = Inr (case map_of kvs k of None \<Rightarrow> JUndefined | Some v \<Rightarrow> v)"
| "getProp _ k = Inr JUndefined"

text \<open>A step that may throw, followed by the rest of the computation.\<close>

fun bindE :: "error + 'a \<Rightarrow> ('a \<Rightarrow> error + 'b) \<Rightarrow> error + 'b" where
  "bindE (Inl e) f = Inl e"
| "bindE (Inr x) f = f x"

text \<open>The nullish coalescing operator \<^verbatim>\<open>??\<close>.\<close>

fun nullish :: "jsval \<Rightarrow> jsval \<Rightarrow> jsval" where
  "nullish JUndefined d = d"
| "nullish JNull d = d"
| "nullish v d = v"

subsection \<open>String operations\<close>

definition lineTerminator :: "char \<Rightarrow> bool" where
  "lineTerminator c = (c = CHR 0x0A \<or> c = CHR 0x0D)"

text \<open>\<^verbatim>\<open>String.prototype.toLowerCase\<close> on code units below 256.\<close>

definition lowerChar :: "char \<Rightarrow> char" where
  "lowerChar c =
     (let n = (of_char c :: nat)
      in if (65 \<le> n \<and> n \<le> 90) \<or> (192 \<le> n \<and> n \<le> 222 \<and> n \<noteq> 215)
         then char_of (n + 32) else c)"

definition toLowerCase :: "string \<Rightarrow> string" where
  "toLowerCase s = map lowerChar s"

text \<open>\<^verbatim>\<open>String.prototype.includes\<close>: the pattern occurs at some position.\<close>

fun includes_str :: "string \<Rightarrow> string \<Rightarrow> bool" where
  "includes_str [] p = (p = [])"
| "includes_str (c # cs) p = (take (length p) (c # cs) = p \<or> includes_str cs p)"

text \<open>\<^verbatim>\<open>Array.prototype.join\<close> on an array of strings.\<close>

fun join :: "string \<Rightarrow> string list \<Rightarrow> string" where
  "join sep [] = []"
| "join sep [x] = x"
| "join sep (x # y # ys) = x @ sep @ join sep (y # ys)"

fun isStr :: "jsval \<Rightarrow> bool" where
  "isStr (JStr s) = True"
| "isStr _ = False"

text \<open>
  \<^verbatim>\<open>s.replace(/^\((.+)\)$/, "$1")\<close>.  The pattern is anchored at both ends and has no
  flags, so it matches only the whole string: an opening parenthesis, one or more
  characters none of which is a line terminator, a closing parenthesis.  The replacement is
  the captured middle part.
\<close>

definition stripParens :: "string \<Rightarrow> string" where
  "stripParens s =
     (if 3 \<le> length s \<and> hd s = CHR ''('' \<and> last s = CHR '')''
         \<and> list_all (\<lambda>c. \<not> lineTerminator c) (butlast (tl s))
      then butlast (tl s) else s)"

text \<open>
  \<^verbatim>\<open>s.match(/<(.+)>/)[1]\<close>: the leftmost \<^verbatim>\<open><\<close> after which a non-empty run without
  line terminators is followed by \<^verbatim>\<open>></\<close>; the group is greedy, so it extends to the last
  such \<^verbatim>\<open>></\<close>.  Without a match the result of \<^verbatim>\<open>match\<close> is null and indexing it
  throws.
\<close>

definition angleGroup :: "string \<Rightarrow> string option" where
  "angleGroup run =
     (let ks = filter (\<lambda>k. run ! k = CHR ''>'') [1 ..< length run]
      in if ks = [] then None else Some (take (last ks) run))"

fun matchAngle :: "string \<Rightarrow> string option" where
  "matchAngle [] = None"
| "matchAngle (c # cs) =
     (if c = CHR ''<''
      then (case angleGroup (takeWhile (\<lambda>c. \<not> lineTerminator c) cs) of
              Some g \<Rightarrow> Some g
            | None \<Rightarrow> matchAngle cs)
      else matchAngle cs)"

section \<open>Construction\<close>

text \<open>
  Two things the constructor uses are not part of the source file and are parameters of
  the model: the package descriptor \<^verbatim>\<open>package.json\<close> (its name, version, repository and
  author entries, taken to be strings) and the function \<^verbatim>\<open>semver/functions/valid\<close>, of
  which only the truthiness of the result is used.  The header check of \<^verbatim>\<open>node-fetch\<close>
  is modelled below.
\<close>

record packageData =
  pd_name :: string
  pd_version :: string
  pd_repository :: string
  pd_author :: string

record 'n client =
  requestTimeout :: 'n
  requestInterval :: 'n
  name :: string
  version :: string
  contact :: string
  userAgent :: string
  headers :: "(string \<times> string) list"

text \<open>The default value of the \<^verbatim>\<open>userAgent\<close> option (lines 125-129).\<close>

definition defaultUserAgent :: "packageData \<Rightarrow> error + jsval" where
  "defaultUserAgent pd =
     (case matchAngle (pd_author pd) of
        None \<Rightarrow> Inl TypeError
      | Some mail \<Rightarrow>
          Inr (JObj [(''name'', JStr (pd_name pd @ '' bot for Node'')),
                     (''version'', JStr (pd_version pd)),
                     (''contact'', JArr [JStr (''https://github.com/'' @ pd_repository pd),
                                         JStr mail])]))"

text \<open>The expression assigned to \<^verbatim>\<open>this.contact\<close> (lines 166-172).\<close>

definition normalizeContact :: "jsval \<Rightarrow> jsval" where
  "normalizeContact c =
     (if c = JNull then JStr []
      else if typeof c = ''string'' then JStr (stripParens (strOf c))
      else (case c of
              JArr xs \<Rightarrow> if list_all isStr xs then JStr (join ''; '' (map strOf xs)) else c
            | _ \<Rightarrow> c))"

text \<open>
  \<^verbatim>\<open>#validateOptions\<close> (lines 242-260), on the five fields in the order in which the
  method reads them.  The result is the error thrown, if any.
\<close>

definition validateOptions ::
  "(string \<Rightarrow> bool) \<Rightarrow> jsval \<Rightarrow> jsval \<Rightarrow> jsval \<Rightarrow> jsval \<Rightarrow> jsval \<Rightarrow> error option" where
  "validateOptions semverValid rt ri nm ver ct =
     (if typeof rt \<noteq> ''number'' then Some TypeError
      else if num_lt (numOf rt) (Fin 500) then Some RangeError
      else if num_gt (numOf rt) (Fin 30000) then Some RangeError
      else if typeof ri \<noteq> ''number'' then Some TypeError
      else if num_lt (numOf ri) (Fin 500) then Some RangeError
      else if num_gt (numOf ri) (Fin 5000) then Some RangeError
      else if typeof nm \<noteq> ''string'' then Some TypeError
      else if length (strOf nm) > 256 then Some RangeError
      else if \<not> includes_str (toLowerCase (strOf nm)) ''bot'' then Some RangeError
      else if typeof ver \<noteq> ''string'' then Some TypeError
      else if \<not> semverValid (strOf ver) then Some RangeError
      else if typeof ct \<noteq> ''string'' then Some TypeError
      else if length (strOf ct) > 256 then Some RangeError
      else None)"

text \<open>
  \<^verbatim>\<open>new Headers({...})\<close> of node-fetch validates every name and value it is given and
  throws a TypeError for an illegal one.  A value is legal when each of its code units is a
  tab or lies in 0x20-0x7E or 0x80-0xFF (the library rejects what matches
  \<^verbatim>\<open>/[^\t\x20-\x7e\x80-\xff]/\<close>): the other control characters and DEL are illegal, and
  so are code units above 0xFF, which the strings of this model do not contain.  The three
  names the client passes are constants and legal header names, so only the values are
  checked here.
\<close>

definition legalHeaderValue :: "string \<Rightarrow> bool" where
  "legalHeaderValue s =
     list_all (\<lambda>c. (of_char c :: nat) = 9
                    \<or> (32 \<le> (of_char c :: nat) \<and> (of_char c :: nat) \<le> 126)
                    \<or> 128 \<le> (of_char c :: nat)) s"

definition newHeaders :: "(string \<times> string) list \<Rightarrow> error + (string \<times> string) list" where
  "newHeaders init =
     (if list_all (\<lambda>p. legalHeaderValue (snd p)) init then Inr init else Inl TypeError)"

text \<open>
  \<^verbatim>\<open>#generateHeaders\<close> (lines 266-289): the User-Agent string and the header set.  The
  method throws when \<^verbatim>\<open>new Headers\<close> does.
\<close>

definition userAgentString :: "packageData \<Rightarrow> string \<Rightarrow> string \<Rightarrow> string \<Rightarrow> string" where
  "userAgentString pd nm ver ct =
     nm @ ''/'' @ ver @ '' '' @ (if ct \<noteq> [] then ''('' @ ct @ '') '' else [])
        @ pd_name pd @ ''/'' @ pd_version pd"

definition generateHeaders :: "packageData \<Rightarrow> 'n client \<Rightarrow> error + 'n client" where
  "generateHeaders pd c =
     (let ua = userAgentString pd (name c) (version c) (contact c)
      in bindE (newHeaders [(''User-Agent'', ua), (''Accept-Encoding'', ''gzip''),
                            (''Connection'', ''keep-alive'')])
           (\<lambda>hs. Inr (c\<lparr>userAgent := ua, headers := hs\<rparr>)))"

text \<open>
  The constructor (lines 122-177).  The argument defaults to the empty object, the
  \<^verbatim>\<open>userAgent\<close> property to \<^const>\<open>defaultUserAgent\<close>; both defaults apply to
  \<^verbatim>\<open>undefined\<close> only.
\<close>

definition constructor :: "(string \<Rightarrow> bool) \<Rightarrow> packageData \<Rightarrow> jsval \<Rightarrow> error + jsnum client" where
  "constructor semverValid pd arg =
     (let opts = (if arg = JUndefined then JObj [] else arg) in
      bindE (getProp opts ''requestTimeout'') (\<lambda>rt0.
      bindE (getProp opts ''requestInterval'') (\<lambda>ri0.
      bindE (getProp opts ''userAgent'') (\<lambda>ua0.
      bindE (if ua0 = JUndefined then defaultUserAgent pd else Inr ua0) (\<lambda>ua.
      let rt = nullish rt0 (JNum (Fin 10000));
          ri = nullish ri0 (JNum (Fin 1000)) in
      bindE (getProp ua ''name'') (\<lambda>nm.
      bindE (getProp ua ''version'') (\<lambda>ver.
      bindE (getProp ua ''contact'') (\<lambda>ct0.
      let ct = normalizeContact ct0 in
      case validateOptions semverValid rt ri nm ver ct of
        Some e \<Rightarrow> Inl e
      | None \<Rightarrow>
          generateHeaders pd
            \<lparr>requestTimeout = numOf rt, requestInterval = numOf ri,
             name = strOf nm, version = strOf ver, contact = strOf ct,
             userAgent = [], headers = []\<rparr>))))))))"

section \<open>The request scheduler\<close>

text \<open>
  The scheduler is the private state \<^verbatim>\<open>#requestManager\<close> with the two private methods
  \<^verbatim>\<open>#setRequest\<close> and \<^verbatim>\<open>#sendRequests\<close>.  Its effects on the outside are timers
  (\<^verbatim>\<open>setTimeout\<close>, \<^verbatim>\<open>clearTimeout\<close>), abort controllers and transport calls
  (\<^verbatim>\<open>fetch\<close>); the model keeps them in an explicit world state.

  Neither method is called anywhere in the file yet: the events below are the calls that
  code of the class can make (\<^verbatim>\<open>this.#setRequest(data)\<close>, \<^verbatim>\<open>this.#sendRequests()\<close>)
  and what the timers and the transport do in response.

  Timestamps are whole milliseconds, as \<^verbatim>\<open>Date.now()\<close> returns them, and the scheduler is
  modelled for a client whose two durations are whole numbers of milliseconds: the client
  record is used at type \<^typ>\<open>int client\<close>.  The two reads of the clock in
  \<^verbatim>\<open>#setRequest\<close> are within one expression and are taken to return the same instant.
\<close>

type_synonym handle = nat

text \<open>
  What is handed to \<^verbatim>\<open>setTimeout\<close> is a function value.  Both \<^verbatim>\<open>this.#sendRequests\<close>
  and \<^verbatim>\<open>controller.abort\<close> are plain property reads: the value is the method itself and
  carries no receiver.
\<close>

datatype callback = SendRequestsFn | AbortFn

text \<open>
  The receiver (\<^verbatim>\<open>this\<close>) of a call.  A function run by a timer is called with the
  timer object as receiver (with the global object in a browser), never with the client or
  the controller the function was read from.
\<close>

datatype receiver = This_client | This_controller nat | This_timer handle

datatype outcome = Fulfilled | Rejected

record timer =
  callback :: callback
  delay :: int

record fetchCall =
  url :: string
  http_method :: string
  sent_headers :: "(string \<times> string) list"
  signal :: nat

record 'd requestManager =
  queue :: "'d list"
  nextReq :: int
  timeout :: "handle option"

text \<open>
  The world: the scheduler state, the live timers, the controllers aborted so far, the
  transport calls in flight (each with the handle of the cancellation timer its
  \<^verbatim>\<open>finally\<close> handler holds), every transport call issued so far, and the errors thrown
  out of timer callbacks.
\<close>

record 'd world =
  manager :: "'d requestManager"
  timers :: "(handle \<times> timer) list"
  nextHandle :: handle
  aborted :: "nat list"
  nextController :: nat
  inflight :: "(fetchCall \<times> handle) list"
  issued :: "fetchCall list"
  uncaught :: "error list"

text \<open>The initial value of \<^verbatim>\<open>#requestManager\<close> (lines 187-191) in an empty world.\<close>

definition initWorld :: "'d world" where
  "initWorld =
     \<lparr>manager = \<lparr>queue = [], nextReq = 0, timeout = None\<rparr>,
      timers = [], nextHandle = 1, aborted = [], nextController = 0,
      inflight = [], issued = [], uncaught = []\<rparr>"

text \<open>
  \<^verbatim>\<open>setTimeout\<close> returns a fresh handle, which is always truthy (a timer object, or a
  positive number in a browser); \<^verbatim>\<open>clearTimeout\<close> removes the timer if it is still live.
\<close>

definition setTimeout :: "callback \<Rightarrow> int \<Rightarrow> 'd world \<Rightarrow> handle \<times> 'd world" where
  "setTimeout f d w =
     (nextHandle w,
      w\<lparr>timers := timers w @ [(nextHandle w, \<lparr>callback = f, delay = d\<rparr>)],
        nextHandle := nextHandle w + 1\<rparr>)"

definition clearTimeout :: "handle \<Rightarrow> 'd world \<Rightarrow> 'd world" where
  "clearTimeout h w = w\<lparr>timers := filter (\<lambda>p. fst p \<noteq> h) (timers w)\<rparr>"

text \<open>\<^verbatim>\<open>#setRequest(data)\<close> (lines 198-207), called on the client at time \<open>now\<close>.\<close>

definition setRequest :: "int client \<Rightarrow> int \<Rightarrow> 'd \<Rightarrow> 'd world \<Rightarrow> 'd world" where
  "setRequest c now data w =
     (let w1 = w\<lparr>manager := (manager w)\<lparr>queue := queue (manager w) @ [data]\<rparr>\<rparr>
      in if timeout (manager w1) = None
         then (let (h, w2) = setTimeout SendRequestsFn
                               (if nextReq (manager w1) < now
                                then requestInterval c
                                else nextReq (manager w1) - now) w1
               in w2\<lparr>manager := (manager w2)\<lparr>timeout := Some h\<rparr>\<rparr>)
         else w1)"

text \<open>
  \<^verbatim>\<open>#sendRequests()\<close> (lines 213-234) called with receiver \<open>this\<close> at time \<open>now\<close>.  The
  first statement reads the private field \<^verbatim>\<open>#requestManager\<close> of the receiver, which
  throws a TypeError on any object that is not an instance of the class.  The query string
  is built from the constant \<^verbatim>\<open>params\<close>.
\<close>

definition sendRequests :: "int client \<Rightarrow> receiver \<Rightarrow> int \<Rightarrow> 'd world \<Rightarrow> error + 'd world" where
  "sendRequests c this now w =
     (if this \<noteq> This_client then Inl TypeError
      else
        let w1 = w\<lparr>manager := (manager w)\<lparr>nextReq := now + requestInterval c\<rparr>\<rparr>;
            controller = nextController w1;
            w2 = w1\<lparr>nextController := controller + 1\<rparr>;
            (h, w3) = setTimeout AbortFn (requestTimeout c) w2;
            call = \<lparr>url = ''https://hololive.wiki/w/api.php?action=query&format=json'',
                    http_method = ''GET'', sent_headers = headers c, signal = controller\<rparr>
        in Inr (w3\<lparr>inflight := inflight w3 @ [(call, h)], issued := issued w3 @ [call]\<rparr>))"

text \<open>
  \<^verbatim>\<open>AbortController.prototype.abort\<close> called with receiver \<open>this\<close>: it aborts the signal
  of the controller it is called on, and throws a TypeError on any other receiver.
\<close>

definition abort :: "receiver \<Rightarrow> 'd world \<Rightarrow> error + 'd world" where
  "abort this w =
     (case this of
        This_controller k \<Rightarrow> Inr (w\<lparr>aborted := aborted w @ [k]\<rparr>)
      | _ \<Rightarrow> Inl TypeError)"

text \<open>
  A live timer fires at time \<open>now\<close>: it is removed and its function is called with the
  timer as receiver.  An error thrown by the function is uncaught.
\<close>

definition fireTimer :: "int client \<Rightarrow> int \<Rightarrow> handle \<Rightarrow> 'd world \<Rightarrow> 'd world" where
  "fireTimer c now h w =
     (case map_of (timers w) h of
        None \<Rightarrow> w
      | Some t \<Rightarrow>
          let w1 = clearTimeout h w;
              r = (case callback t of
                     SendRequestsFn \<Rightarrow> sendRequests c (This_timer h) now w1
                   | AbortFn \<Rightarrow> abort (This_timer h) w1)
          in (case r of Inl e \<Rightarrow> w1\<lparr>uncaught := uncaught w1 @ [e]\<rparr> | Inr w2 \<Rightarrow> w2))"

text \<open>
  The transport call with signal \<open>k\<close> settles (lines 225-233).  The \<^verbatim>\<open>then\<close> and
  \<^verbatim>\<open>catch\<close> handlers are empty; the \<^verbatim>\<open>finally\<close> handler clears the cancellation
  timer of this call, whatever the outcome.
\<close>

definition settle :: "outcome \<Rightarrow> nat \<Rightarrow> 'd world \<Rightarrow> 'd world" where
  "settle out k w =
     (case find (\<lambda>p. signal (fst p) = k) (inflight w) of
        None \<Rightarrow> w
      | Some (call, h) \<Rightarrow>
          clearTimeout h (w\<lparr>inflight := filter (\<lambda>p. signal (fst p) \<noteq> k) (inflight w)\<rparr>))"

text \<open>
  The events of a run: the two private methods called on the client itself, a timer
  firing, and a transport call settling.
\<close>

datatype 'd event =
    Submit int 'd
  | Dispatch int
  | Fire int handle
  | Settle outcome nat

fun step :: "int client \<Rightarrow> 'd event \<Rightarrow> 'd world \<Rightarrow> 'd world" where
  "step c (Submit now data) w = setRequest c now data w"
| "step c (Dispatch now) w =
     (case sendRequests c This_client now w of Inl e \<Rightarrow> w | Inr w1 \<Rightarrow> w1)"
| "step c (Fire now h) w = fireTimer c now h w"
| "step c (Settle out k) w = settle out k w"

fun run :: "int client \<Rightarrow> 'd event list \<Rightarrow> 'd world \<Rightarrow> 'd world" where
  "run c [] w = w"
| "run c (e # es) w = run c es (step c e w)"

definition dispatchTimers :: "'d world \<Rightarrow> (handle \<times> timer) list" where
  "dispatchTimers w = filter (\<lambda>p. callback (snd p) = SendRequestsFn) (timers w)"

section \<open>Reference notions\<close>

text \<open>
  The notions below are not taken from the source.  They restate, in the words of the
  specification, what the source is compared with.

  A name mentions "bot" when the three letters occur next to each other, each in either
  case.
\<close>

definition mentionsBot :: "string \<Rightarrow> bool" where
  "mentionsBot s \<longleftrightarrow>
     (\<exists>pre x y z suf. s = pre @ [x, y, z] @ suf
        \<and> x \<in> {CHR ''b'', CHR ''B''} \<and> y \<in> {CHR ''o'', CHR ''O''} \<and> z \<in> {CHR ''t'', CHR ''T''})"

text \<open>
  The verdict on one configuration field: accepted, of the wrong kind, or of the right kind
  with a value that is not allowed.  A duration is out of range when it is below the
  minimum or above the maximum; NaN is neither.
\<close>

datatype verdict = Accepted | WrongKind | OutOfRange

definition durationVerdict :: "real \<Rightarrow> real \<Rightarrow> jsval \<Rightarrow> verdict" where
  "durationVerdict lo hi v =
     (case v of
        JNum (Fin r) \<Rightarrow> if r < lo \<or> hi < r then OutOfRange else Accepted
      | JNum NaN \<Rightarrow> Accepted
      | JNum PosInf \<Rightarrow> OutOfRange
      | JNum NegInf \<Rightarrow> OutOfRange
      | _ \<Rightarrow> WrongKind)"

definition nameVerdict :: "jsval \<Rightarrow> verdict" where
  "nameVerdict v =
     (case v of
        JStr s \<Rightarrow> if 256 < length s \<or> \<not> mentionsBot s then OutOfRange else Accepted
      | _ \<Rightarrow> WrongKind)"

definition versionVerdict :: "(string \<Rightarrow> bool) \<Rightarrow> jsval \<Rightarrow> verdict" where
  "versionVerdict semverValid v =
     (case v of
        JStr s \<Rightarrow> if semverValid s then Accepted else OutOfRange
      | _ \<Rightarrow> WrongKind)"

definition contactVerdict :: "jsval \<Rightarrow> verdict" where
  "contactVerdict v =
     (case v of
        JStr s \<Rightarrow> if 256 < length s then OutOfRange else Accepted
      | _ \<Rightarrow> WrongKind)"

text \<open>The error of the first field, in order, that is not accepted.\<close>

fun firstFailure :: "verdict list \<Rightarrow> error option" where
  "firstFailure [] = None"
| "firstFailure (Accepted # vs) = firstFailure vs"
| "firstFailure (WrongKind # vs) = Some TypeError"
| "firstFailure (OutOfRange # vs) = Some RangeError"

text \<open>
  The arming delay as the specification words it: the distance to the watermark when the
  watermark is in the future, the request interval otherwise.
\<close>

definition claimedDelay :: "int \<Rightarrow> int \<Rightarrow> int \<Rightarrow> int" where
  "claimedDelay nextAllowedAt now interval =
     (if now < nextAllowedAt then nextAllowedAt - now else interval)"

text \<open>
  The events that do not call the dispatch method on the client directly: submissions,
  timers firing and transport calls settling.
\<close>

fun timerDriven :: "'d event \<Rightarrow> bool" where
  "timerDriven (Dispatch now) = False"
| "timerDriven e = True"

text \<open>
  The invariant behind the single-flight timer: handles of live timers are below the next
  fresh handle and pairwise distinct, and a live dispatch timer is the one whose handle the
  scheduler holds.
\<close>

definition singleFlight :: "'d world \<Rightarrow> bool" where
  "singleFlight w \<longleftrightarrow>
     (\<forall>(h, t) \<in> set (timers w). h < nextHandle w)
     \<and> distinct (map fst (timers w))
     \<and> (\<forall>(h, t) \<in> set (timers w).
           callback t = SendRequestsFn \<longrightarrow> timeout (manager w) = Some h)"

subsection \<open>Sample values\<close>

text \<open>
  Values for the concrete evaluations: a package descriptor, a stand-in for the version
  check that accepts two well-formed versions, a client with the default durations, and
  the transport call such a client issues.
\<close>

definition samplePackage :: packageData where
  "samplePackage =
     \<lparr>pd_name = ''hololive-wiki'', pd_version = ''0.1.0'',
      pd_repository = ''That-Guy977/hololive-wiki'',
      pd_author = ''That-Guy977 <maintainer@example.com>''\<rparr>"

definition sampleSemver :: "string \<Rightarrow> bool" where
  "sampleSemver v = (v = ''1.0.0'' \<or> v = ''0.1.0'')"

definition sampleClient :: "int client" where
  "sampleClient =
     \<lparr>requestTimeout = 10000, requestInterval = 1000, name = ''abot'', version = ''1.0.0'',
      contact = [], userAgent = ''abot/1.0.0 hololive-wiki/0.1.0'',
      headers = [(''User-Agent'', ''abot/1.0.0 hololive-wiki/0.1.0''),
                 (''Accept-Encoding'', ''gzip''), (''Connection'', ''keep-alive'')]\<rparr>"

definition fixedCall :: fetchCall where
  "fixedCall =
     \<lparr>url = ''https://hololive.wiki/w/api.php?action=query&format=json'',
      http_method = ''GET'',
      sent_headers = [(''User-Agent'', ''abot/1.0.0 hololive-wiki/0.1.0''),
                      (''Accept-Encoding'', ''gzip''), (''Connection'', ''keep-alive'')],
      signal = 0\<rparr>"

section \<open>Validation\<close>

subsection \<open>The name check\<close>

lemma includes_str_iff: "includes_str s p \<longleftrightarrow> (\<exists>pre suf. s = pre @ p @ suf)"
proof (induction s)
  case Nil
  then show ?case by auto
next
  case (Cons c cs)
  show ?case
  proof
    assume "includes_str (c # cs) p"
    then consider "take (length p) (c # cs) = p" | "includes_str cs p" by auto
    then show "\<exists>pre suf. c # cs = pre @ p @ suf"
    proof cases
      case 1
      then have "c # cs = [] @ p @ drop (length p) (c # cs)"
        by (metis append_Nil append_take_drop_id)
      then show ?thesis by blast
    next
      case 2
      then obtain pre suf where "cs = pre @ p @ suf" using Cons.IH by auto
      then have "c # cs = (c # pre) @ p @ suf" by simp
      then show ?thesis by blast
    qed
  next
    assume "\<exists>pre suf. c # cs = pre @ p @ suf"
    then obtain pre suf where e: "c # cs = pre @ p @ suf" by auto
    show "includes_str (c # cs) p"
    proof (cases pre)
      case Nil
      then have "take (length p) (c # cs) = p" using e by simp
      then show ?thesis by simp
    next
      case (Cons a pre')
      then have "cs = pre' @ p @ suf" using e by simp
      then show ?thesis using Cons.IH by auto
    qed
  qed
qed

lemma includes_map:
  "includes_str (map f s) p \<longleftrightarrow> (\<exists>pre m suf. s = pre @ m @ suf \<and> map f m = p)"
proof
  assume "includes_str (map f s) p"
  then obtain a b where ab: "map f s = a @ p @ b"
    using includes_str_iff[of "map f s" p] by blast
  from ab obtain us vs where 1: "s = us @ vs" and 2: "p @ b = map f vs"
    using map_eq_append_conv[of f s a "p @ b"] by blast
  from 2 obtain m suf where 3: "vs = m @ suf" and 4: "p = map f m"
    using append_eq_map_conv[of p b f vs] by blast
  have "s = us @ m @ suf \<and> map f m = p" using 1 3 4 by simp
  then show "\<exists>pre m suf. s = pre @ m @ suf \<and> map f m = p" by blast
next
  assume "\<exists>pre m suf. s = pre @ m @ suf \<and> map f m = p"
  then obtain pre m suf where s: "s = pre @ m @ suf" and m: "map f m = p" by blast
  have "map f s = map f pre @ p @ map f suf" unfolding s using m by simp
  then show "includes_str (map f s) p"
    using includes_str_iff[of "map f s" p] by blast
qed

lemma of_char_lowerChar:
  "(of_char (lowerChar x) :: nat) =
     (if (65 \<le> (of_char x :: nat) \<and> (of_char x :: nat) \<le> 90)
         \<or> (192 \<le> (of_char x :: nat) \<and> (of_char x :: nat) \<le> 222 \<and> (of_char x :: nat) \<noteq> 215)
      then of_char x + 32 else of_char x)"
proof -
  have "(of_char (char_of (k + 32 :: nat) :: char) :: nat) = k + 32" if "k \<le> 222" for k
    using that by (simp only: of_char_of) simp
  then show ?thesis
    unfolding lowerChar_def Let_def by (simp split: if_splits)
qed

lemma lowerChar_eq_iff:
  assumes "of_char y = (m::nat)" "97 \<le> m" "m \<le> 122" "of_char u = m - 32"
  shows "lowerChar x = y \<longleftrightarrow> x = y \<or> x = u"
proof -
  have 1: "lowerChar x = y \<longleftrightarrow> (of_char (lowerChar x) :: nat) = m"
    unfolding assms(1)[symmetric] by (simp only: of_char_eq_iff)
  have 2: "x = y \<longleftrightarrow> (of_char x :: nat) = m"
    unfolding assms(1)[symmetric] by (simp only: of_char_eq_iff)
  have 3: "x = u \<longleftrightarrow> (of_char x :: nat) = m - 32"
    unfolding assms(4)[symmetric] by (simp only: of_char_eq_iff)
  show ?thesis
    unfolding 1 2 3 of_char_lowerChar using assms(2,3) by (simp split: if_splits) arith
qed

lemma lowerChar_b: "lowerChar x = CHR ''b'' \<longleftrightarrow> x = CHR ''b'' \<or> x = CHR ''B''"
  by (rule lowerChar_eq_iff[where m = 98]) simp_all

lemma lowerChar_o: "lowerChar x = CHR ''o'' \<longleftrightarrow> x = CHR ''o'' \<or> x = CHR ''O''"
  by (rule lowerChar_eq_iff[where m = 111]) simp_all

lemma lowerChar_t: "lowerChar x = CHR ''t'' \<longleftrightarrow> x = CHR ''t'' \<or> x = CHR ''T''"
  by (rule lowerChar_eq_iff[where m = 116]) simp_all

lemma map_lowerChar_bot:
  "map lowerChar m = ''bot'' \<longleftrightarrow>
     (\<exists>x y z. m = [x, y, z] \<and> lowerChar x = CHR ''b'' \<and> lowerChar y = CHR ''o''
        \<and> lowerChar z = CHR ''t'')"
proof (cases m)
  case Nil
  then show ?thesis by simp
next
  case m1: (Cons x m1)
  show ?thesis
  proof (cases m1)
    case Nil
    then show ?thesis using m1 by simp
  next
    case m2: (Cons y m2)
    show ?thesis
    proof (cases m2)
      case Nil
      then show ?thesis using m1 m2 by simp
    next
      case m3: (Cons z m3)
      show ?thesis using m1 m2 m3 by (cases m3) simp_all
    qed
  qed
qed

lemma includes_bot_iff: "includes_str (toLowerCase s) ''bot'' \<longleftrightarrow> mentionsBot s"
proof -
  have "includes_str (toLowerCase s) ''bot'' \<longleftrightarrow>
          (\<exists>pre m suf. s = pre @ m @ suf \<and> map lowerChar m = ''bot'')"
    unfolding toLowerCase_def by (rule includes_map)
  also have "\<dots> \<longleftrightarrow> (\<exists>pre suf x y z. s = pre @ [x, y, z] @ suf
        \<and> lowerChar x = CHR ''b'' \<and> lowerChar y = CHR ''o'' \<and> lowerChar z = CHR ''t'')"
    unfolding map_lowerChar_bot by blast
  also have "\<dots> \<longleftrightarrow> mentionsBot s"
    unfolding mentionsBot_def lowerChar_b lowerChar_o lowerChar_t by blast
  finally show ?thesis .
qed

subsection \<open>Each check of the method is the verdict on one field\<close>

lemma durationVerdict_code:
  "durationVerdict lo hi v =
     (if typeof v \<noteq> ''number'' then WrongKind
      else if num_lt (numOf v) (Fin lo) \<or> num_gt (numOf v) (Fin hi) then OutOfRange
      else Accepted)"
proof (cases v)
  case (JNum n)
  then show ?thesis by (cases n) (auto simp: durationVerdict_def num_gt_def)
qed (simp_all add: durationVerdict_def)

lemma nameVerdict_code:
  "nameVerdict v =
     (if typeof v \<noteq> ''string'' then WrongKind
      else if length (strOf v) > 256 \<or> \<not> includes_str (toLowerCase (strOf v)) ''bot''
      then OutOfRange else Accepted)"
  by (cases v) (simp_all add: nameVerdict_def includes_bot_iff)

lemma versionVerdict_code:
  "versionVerdict sv v =
     (if typeof v \<noteq> ''string'' then WrongKind
      else if \<not> sv (strOf v) then OutOfRange else Accepted)"
  by (cases v) (simp_all add: versionVerdict_def)

lemma contactVerdict_code:
  "contactVerdict v =
     (if typeof v \<noteq> ''string'' then WrongKind
      else if length (strOf v) > 256 then OutOfRange else Accepted)"
  by (cases v) (simp_all add: contactVerdict_def)

lemma step_duration:
  "K = firstFailure vs \<Longrightarrow>
   (if typeof v \<noteq> ''number'' then Some TypeError
    else if num_lt (numOf v) (Fin lo) then Some RangeError
    else if num_gt (numOf v) (Fin hi) then Some RangeError
    else K) = firstFailure (durationVerdict lo hi v # vs)"
  by (simp add: durationVerdict_code)

lemma step_name:
  "K = firstFailure vs \<Longrightarrow>
   (if typeof v \<noteq> ''string'' then Some TypeError
    else if length (strOf v) > 256 then Some RangeError
    else if \<not> includes_str (toLowerCase (strOf v)) ''bot'' then Some RangeError
    else K) = firstFailure (nameVerdict v # vs)"
  by (simp add: nameVerdict_code)

lemma step_version:
  "K = firstFailure vs \<Longrightarrow>
   (if typeof v \<noteq> ''string'' then Some TypeError
    else if \<not> sv (strOf v) then Some RangeError
    else K) = firstFailure (versionVerdict sv v # vs)"
  by (simp add: versionVerdict_code)

lemma step_contact:
  "K = firstFailure vs \<Longrightarrow>
   (if typeof v \<noteq> ''string'' then Some TypeError
    else if length (strOf v) > 256 then Some RangeError
    else K) = firstFailure (contactVerdict v # vs)"
  by (simp add: contactVerdict_code)

lemma validateOptions_verdicts:
  "validateOptions sv rt ri nm ver ct =
     firstFailure [durationVerdict 500 30000 rt, durationVerdict 500 5000 ri,
                   nameVerdict nm, versionVerdict sv ver, contactVerdict ct]"
  unfolding validateOptions_def
  apply (rule step_duration)
  apply (rule step_duration)
  apply (rule step_name)
  apply (rule step_version)
  apply (rule step_contact)
  apply simp
  done

lemma firstFailure_None: "firstFailure vs = None \<longleftrightarrow> (\<forall>v \<in> set vs. v = Accepted)"
  by (induction vs rule: firstFailure.induct) auto

lemma firstFailure_TypeError: "firstFailure vs = Some TypeError \<Longrightarrow> WrongKind \<in> set vs"
  by (induction vs rule: firstFailure.induct) auto

lemma firstFailure_RangeError: "firstFailure vs = Some RangeError \<Longrightarrow> OutOfRange \<in> set vs"
  by (induction vs rule: firstFailure.induct) auto

lemma Accepted_string:
  "nameVerdict v = Accepted \<Longrightarrow> v = JStr (strOf v)"
  "versionVerdict sv v = Accepted \<Longrightarrow> v = JStr (strOf v)"
  "contactVerdict v = Accepted \<Longrightarrow> v = JStr (strOf v)"
  unfolding nameVerdict_def versionVerdict_def contactVerdict_def
  by (cases v; simp)+

lemma validateOptions_None_strings:
  assumes "validateOptions sv rt ri nm ver ct = None"
  shows "nm = JStr (strOf nm)" "ver = JStr (strOf ver)" "ct = JStr (strOf ct)"
proof -
  have "nameVerdict nm = Accepted" "versionVerdict sv ver = Accepted"
    "contactVerdict ct = Accepted"
    using assms unfolding validateOptions_verdicts firstFailure_None by simp_all
  then show "nm = JStr (strOf nm)" "ver = JStr (strOf ver)" "ct = JStr (strOf ct)"
    using Accepted_string(1)[of nm] Accepted_string(2)[of sv ver] Accepted_string(3)[of ct]
    by blast+
qed

text \<open>
  Claim C8, as amended.  \<^verbatim>\<open>#validateOptions\<close> checks the fields in the order
  requestTimeout, requestInterval, name, version, contact and throws for the first field
  that is not accepted: a TypeError when that field has the wrong kind, a RangeError when it
  has the right kind and a value that is not allowed (a duration below the minimum or above
  the maximum, a name longer than 256 or without "bot", a version that is not a semantic
  version, a contact longer than 256).  So validation succeeds exactly when every field is
  accepted, a TypeError implies a field of the wrong kind and a RangeError a field with a
  value that is not allowed; NaN is an accepted duration.  The bounds are inclusive:
  500 and 30000 pass as requestTimeout, 500 and 5000 as requestInterval, and then the
  outcome is that of the remaining fields; 499 and 30001, and 499 and 5001, are rejected
  with a RangeError.
\<close>

theorem validateOptions_first_failure:
  "validateOptions sv rt ri nm ver ct =
     firstFailure [durationVerdict 500 30000 rt, durationVerdict 500 5000 ri,
                   nameVerdict nm, versionVerdict sv ver, contactVerdict ct]
   \<and> (validateOptions sv rt ri nm ver ct = None \<longleftrightarrow>
        (\<forall>v \<in> set [durationVerdict 500 30000 rt, durationVerdict 500 5000 ri,
                     nameVerdict nm, versionVerdict sv ver, contactVerdict ct].
           v = Accepted))
   \<and> (validateOptions sv rt ri nm ver ct = Some TypeError \<longrightarrow>
        WrongKind \<in> set [durationVerdict 500 30000 rt, durationVerdict 500 5000 ri,
                         nameVerdict nm, versionVerdict sv ver, contactVerdict ct])
   \<and> (validateOptions sv rt ri nm ver ct = Some RangeError \<longrightarrow>
        OutOfRange \<in> set [durationVerdict 500 30000 rt, durationVerdict 500 5000 ri,
                          nameVerdict nm, versionVerdict sv ver, contactVerdict ct])
   \<and> validateOptions sv (JNum (Fin 500)) (JNum (Fin 500)) nm ver ct
       = firstFailure [nameVerdict nm, versionVerdict sv ver, contactVerdict ct]
   \<and> validateOptions sv (JNum (Fin 30000)) (JNum (Fin 5000)) nm ver ct
       = firstFailure [nameVerdict nm, versionVerdict sv ver, contactVerdict ct]
   \<and> validateOptions sv (JNum (Fin 499)) ri nm ver ct = Some RangeError
   \<and> validateOptions sv (JNum (Fin 30001)) ri nm ver ct = Some RangeError
   \<and> validateOptions sv (JNum (Fin 500)) (JNum (Fin 499)) nm ver ct = Some RangeError
   \<and> validateOptions sv (JNum (Fin 30000)) (JNum (Fin 5001)) nm ver ct = Some RangeError"
proof -
  let ?vs = "[durationVerdict 500 30000 rt, durationVerdict 500 5000 ri,
              nameVerdict nm, versionVerdict sv ver, contactVerdict ct]"
  let ?rest = "firstFailure [nameVerdict nm, versionVerdict sv ver, contactVerdict ct]"
  have a: "validateOptions sv rt ri nm ver ct = firstFailure ?vs"
    by (rule validateOptions_verdicts)
  have b: "validateOptions sv (JNum (Fin 500)) (JNum (Fin 500)) nm ver ct = ?rest"
    "validateOptions sv (JNum (Fin 30000)) (JNum (Fin 5000)) nm ver ct = ?rest"
    unfolding validateOptions_verdicts by (simp_all add: durationVerdict_def)
  have c: "validateOptions sv (JNum (Fin 499)) ri nm ver ct = Some RangeError"
    "validateOptions sv (JNum (Fin 30001)) ri nm ver ct = Some RangeError"
    "validateOptions sv (JNum (Fin 500)) (JNum (Fin 499)) nm ver ct = Some RangeError"
    "validateOptions sv (JNum (Fin 30000)) (JNum (Fin 5001)) nm ver ct = Some RangeError"
    unfolding validateOptions_verdicts by (simp_all add: durationVerdict_def)
  have d: "firstFailure ?vs = None \<longleftrightarrow> (\<forall>v \<in> set ?vs. v = Accepted)"
    by (rule firstFailure_None)
  have e: "firstFailure ?vs = Some TypeError \<longrightarrow> WrongKind \<in> set ?vs"
    using firstFailure_TypeError by blast
  have f: "firstFailure ?vs = Some RangeError \<longrightarrow> OutOfRange \<in> set ?vs"
    using firstFailure_RangeError by blast
  show ?thesis
    unfolding a using b[unfolded a] c d e f by (intro conjI) (assumption | rule refl)+
qed

theorem validateOptions_first_failure_witness:
  "validateOptions sampleSemver (JNum (Fin 500)) (JNum (Fin 5000)) (JStr ''abot'')
      (JStr ''1.0.0'') (JStr []) = None
   \<and> [durationVerdict 500 30000 (JNum (Fin 500)),
       durationVerdict 500 5000 (JNum (Fin 5000)), nameVerdict (JStr ''abot''),
       versionVerdict sampleSemver (JStr ''1.0.0''), contactVerdict (JStr [])]
      = [Accepted, Accepted, Accepted, Accepted, Accepted]
   \<and> validateOptions sampleSemver (JStr ''500'') (JNum (Fin 5000)) (JStr ''abot'')
      (JStr ''1.0.0'') (JStr []) = Some TypeError
   \<and> WrongKind \<in> set [durationVerdict 500 30000 (JStr ''500''),
                    durationVerdict 500 5000 (JNum (Fin 5000)), nameVerdict (JStr ''abot''),
                    versionVerdict sampleSemver (JStr ''1.0.0''), contactVerdict (JStr [])]
   \<and> validateOptions sampleSemver (JNum (Fin 500)) (JNum (Fin 5000)) (JStr ''abot'')
      (JStr ''one'') (JStr []) = Some RangeError
   \<and> OutOfRange \<in> set [durationVerdict 500 30000 (JNum (Fin 500)),
                    durationVerdict 500 5000 (JNum (Fin 5000)), nameVerdict (JStr ''abot''),
                    versionVerdict sampleSemver (JStr ''one''), contactVerdict (JStr [])]"
proof -
  have 1: "validateOptions sampleSemver (JNum (Fin 500)) (JNum (Fin 5000)) (JStr ''abot'')
      (JStr ''1.0.0'') (JStr []) = None"
    by code_simp
  have 2: "validateOptions sampleSemver (JStr ''500'') (JNum (Fin 5000)) (JStr ''abot'')
      (JStr ''1.0.0'') (JStr []) = Some TypeError"
    by code_simp
  have 3: "validateOptions sampleSemver (JNum (Fin 500)) (JNum (Fin 5000)) (JStr ''abot'')
      (JStr ''one'') (JStr []) = Some RangeError"
    by code_simp
  have "\<forall>v \<in> set [durationVerdict 500 30000 (JNum (Fin 500)),
       durationVerdict 500 5000 (JNum (Fin 5000)), nameVerdict (JStr ''abot''),
       versionVerdict sampleSemver (JStr ''1.0.0''), contactVerdict (JStr [])]. v = Accepted"
    using 1 validateOptions_first_failure[of sampleSemver "JNum (Fin 500)" "JNum (Fin 5000)"
        "JStr ''abot''" "JStr ''1.0.0''" "JStr []"]
    by blast
  then have 4: "[durationVerdict 500 30000 (JNum (Fin 500)),
       durationVerdict 500 5000 (JNum (Fin 5000)), nameVerdict (JStr ''abot''),
       versionVerdict sampleSemver (JStr ''1.0.0''), contactVerdict (JStr [])]
      = [Accepted, Accepted, Accepted, Accepted, Accepted]"
    by simp
  show ?thesis
    using 1 2 3 4
      validateOptions_first_failure[of sampleSemver "JStr ''500''" "JNum (Fin 5000)"
        "JStr ''abot''" "JStr ''1.0.0''" "JStr []"]
      validateOptions_first_failure[of sampleSemver "JNum (Fin 500)" "JNum (Fin 5000)"
        "JStr ''abot''" "JStr ''one''" "JStr []"]
    by blast
qed

text \<open>
  The claim as stated fails in both directions.  With requestTimeout 499 and a number as
  name, a field has the wrong kind and the error is a RangeError; with a string as
  requestTimeout and requestInterval 499, a field is out of bounds and the error is a
  TypeError; and NaN, which lies outside every range, is accepted for both durations.
\<close>

theorem validation_kinds_counterexample:
  "validateOptions sampleSemver (JNum (Fin 499)) (JNum (Fin 1000)) (JNum (Fin 4))
      (JStr ''1.0.0'') (JStr []) = Some RangeError
   \<and> validateOptions sampleSemver (JStr ''10000'') (JNum (Fin 499)) (JStr ''abot'')
      (JStr ''1.0.0'') (JStr []) = Some TypeError
   \<and> validateOptions sampleSemver (JNum NaN) (JNum NaN) (JStr ''abot'')
      (JStr ''1.0.0'') (JStr []) = None"
  by code_simp

section \<open>Construction\<close>

lemma bindE_Inr: "bindE m f = Inr c \<longleftrightarrow> (\<exists>x. m = Inr x \<and> f x = Inr c)"
  by (cases m) simp_all

lemma newHeaders_client:
  "newHeaders [(''User-Agent'', ua), (''Accept-Encoding'', ''gzip''),
               (''Connection'', ''keep-alive'')]
     = (if legalHeaderValue ua
        then Inr [(''User-Agent'', ua), (''Accept-Encoding'', ''gzip''),
                  (''Connection'', ''keep-alive'')]
        else Inl TypeError)"
proof -
  have "legalHeaderValue ''gzip''" "legalHeaderValue ''keep-alive''"
    unfolding legalHeaderValue_def by simp_all
  then show ?thesis unfolding newHeaders_def by simp
qed

lemma generateHeaders_result:
  "generateHeaders pd c =
     (if legalHeaderValue (userAgentString pd (name c) (version c) (contact c))
      then Inr (c\<lparr>userAgent := userAgentString pd (name c) (version c) (contact c),
                  headers := [(''User-Agent'',
                                userAgentString pd (name c) (version c) (contact c)),
                              (''Accept-Encoding'', ''gzip''),
                              (''Connection'', ''keep-alive'')]\<rparr>)
      else Inl TypeError)"
  unfolding generateHeaders_def Let_def newHeaders_client by simp

lemma generateHeaders_Inr:
  assumes "generateHeaders pd c0 = Inr c"
  shows "legalHeaderValue (userAgentString pd (name c0) (version c0) (contact c0))"
    and "c = c0\<lparr>userAgent := userAgentString pd (name c0) (version c0) (contact c0),
                  headers := [(''User-Agent'',
                                userAgentString pd (name c0) (version c0) (contact c0)),
                              (''Accept-Encoding'', ''gzip''),
                              (''Connection'', ''keep-alive'')]\<rparr>"
  using assms unfolding generateHeaders_result by (auto split: if_splits)

lemma legalHeaderValue_append:
  "legalHeaderValue (a @ b) \<longleftrightarrow> legalHeaderValue a \<and> legalHeaderValue b"
  unfolding legalHeaderValue_def by simp

lemma constructor_Inr:
  "constructor sv pd arg = Inr c \<longleftrightarrow>
     (\<exists>rt0 ri0 ua0 ua nm ver ct0.
        getProp (if arg = JUndefined then JObj [] else arg) ''requestTimeout'' = Inr rt0
      \<and> getProp (if arg = JUndefined then JObj [] else arg) ''requestInterval'' = Inr ri0
      \<and> getProp (if arg = JUndefined then JObj [] else arg) ''userAgent'' = Inr ua0
      \<and> (if ua0 = JUndefined then defaultUserAgent pd else Inr ua0) = Inr ua
      \<and> getProp ua ''name'' = Inr nm
      \<and> getProp ua ''version'' = Inr ver
      \<and> getProp ua ''contact'' = Inr ct0
      \<and> validateOptions sv (nullish rt0 (JNum (Fin 10000))) (nullish ri0 (JNum (Fin 1000)))
            nm ver (normalizeContact ct0) = None
      \<and> generateHeaders pd
            \<lparr>requestTimeout = numOf (nullish rt0 (JNum (Fin 10000))),
             requestInterval = numOf (nullish ri0 (JNum (Fin 1000))),
             name = strOf nm, version = strOf ver, contact = strOf (normalizeContact ct0),
             userAgent = [], headers = []\<rparr> = Inr c)"
  unfolding constructor_def Let_def
  by (simp add: bindE_Inr split: option.splits) blast

text \<open>The constructor on an options object that spells out all three options.\<close>

lemma constructor_explicit:
  "constructor sv pd
     (JObj [(''requestTimeout'', rt), (''requestInterval'', ri),
            (''userAgent'', JObj [(''name'', nm), (''version'', ver), (''contact'', ct)])])
   = (case validateOptions sv (nullish rt (JNum (Fin 10000))) (nullish ri (JNum (Fin 1000)))
             nm ver (normalizeContact ct) of
        Some e \<Rightarrow> Inl e
      | None \<Rightarrow>
          generateHeaders pd
            \<lparr>requestTimeout = numOf (nullish rt (JNum (Fin 10000))),
             requestInterval = numOf (nullish ri (JNum (Fin 1000))),
             name = strOf nm, version = strOf ver, contact = strOf (normalizeContact ct),
             userAgent = [], headers = []\<rparr>)"
  unfolding constructor_def Let_def by simp

subsection \<open>Contact normalisation\<close>

lemma stripParens_wrapped:
  "stripParens (''('' @ s @ '')'') =
     (if s \<noteq> [] \<and> list_all (\<lambda>c. \<not> lineTerminator c) s then s else ''('' @ s @ '')'')"
proof -
  have "3 \<le> length (''('' @ s @ '')'') \<longleftrightarrow> s \<noteq> []" by (cases s) simp_all
  moreover have "butlast (tl (''('' @ s @ '')'')) = s" by (simp add: butlast_append)
  moreover have "hd (''('' @ s @ '')'') = CHR ''(''" "last (''('' @ s @ '')'') = CHR '')''"
    by simp_all
  ultimately show ?thesis unfolding stripParens_def by (simp only:) simp
qed

lemma stripParens_other:
  assumes "\<And>t. s \<noteq> ''('' @ t @ '')''"
  shows "stripParens s = s"
proof (cases "3 \<le> length s \<and> hd s = CHR ''('' \<and> last s = CHR '')''")
  case True
  then have "s \<noteq> []" "tl s \<noteq> []" by (cases s; cases "tl s"; auto)+
  then have "s = hd s # butlast (tl s) @ [last (tl s)]" by simp
  moreover have "last (tl s) = last s" using \<open>tl s \<noteq> []\<close> by (simp add: last_tl)
  ultimately have "s = ''('' @ butlast (tl s) @ '')''" using True by simp
  then show ?thesis using assms by blast
next
  case False
  then show ?thesis unfolding stripParens_def by auto
qed

lemma normalizeContact_strings:
  "normalizeContact (JArr (map JStr ss)) = JStr (join ''; '' ss)"
proof -
  have "list_all isStr (map JStr ss)" by (induction ss) simp_all
  moreover have "map strOf (map JStr ss) = ss" by (induction ss) simp_all
  ultimately show ?thesis unfolding normalizeContact_def by simp
qed

lemma absent_contact_rejected:
  "validateOptions sv rt ri nm ver JUndefined =
     Some (case firstFailure [durationVerdict 500 30000 rt, durationVerdict 500 5000 ri,
                              nameVerdict nm, versionVerdict sv ver] of
             None \<Rightarrow> TypeError | Some e \<Rightarrow> e)"
proof -
  have u: "contactVerdict JUndefined = WrongKind" by (simp add: contactVerdict_def)
  show ?thesis
    unfolding validateOptions_verdicts u
    by (cases "durationVerdict 500 30000 rt"; cases "durationVerdict 500 5000 ri";
        cases "nameVerdict nm"; cases "versionVerdict sv ver"; simp)
qed

lemma lineTerminator_illegal:
  assumes "lineTerminator c" "c \<in> set s"
  shows "\<not> legalHeaderValue s"
proof -
  have "\<not> ((of_char c :: nat) = 9 \<or> (32 \<le> (of_char c :: nat) \<and> (of_char c :: nat) \<le> 126)
            \<or> 128 \<le> (of_char c :: nat))"
    using assms(1) unfolding lineTerminator_def by auto
  then show ?thesis
    using assms(2) unfolding legalHeaderValue_def list_all_iff by blast
qed

lemma legalHeaderValue_contact:
  assumes "legalHeaderValue (userAgentString pd nm ver ct)"
  shows "legalHeaderValue ct"
proof (cases "ct = []")
  case True
  then show ?thesis by (simp add: legalHeaderValue_def)
next
  case False
  then show ?thesis
    using assms unfolding userAgentString_def legalHeaderValue_def by simp
qed

text \<open>
  Claim C7, as amended.  An array of strings is joined with \<^verbatim>\<open>"; "\<close>.  A string that
  is an opening parenthesis, a non-empty text without line terminators and a closing
  parenthesis loses that outer pair, once.  A wrapped empty text and any string not of
  this shape are kept as they are; so is a wrapped text that contains a line terminator,
  and construction then fails.  \<^verbatim>\<open>null\<close> becomes the empty string.  An absent contact
  (\<^verbatim>\<open>undefined\<close>) is not normalised and is never accepted: validation throws a
  TypeError for it when the four earlier fields are accepted and the error of the first of
  them that is not accepted otherwise, and so does the constructor when the
  \<^verbatim>\<open>userAgent\<close> option has no \<^verbatim>\<open>contact\<close> property.
\<close>

theorem normalizeContact_cases:
  "normalizeContact (JArr (map JStr ss)) = JStr (join ''; '' ss)
   \<and> (s \<noteq> [] \<and> list_all (\<lambda>c. \<not> lineTerminator c) s \<longrightarrow>
        normalizeContact (JStr (''('' @ s @ '')'')) = JStr s)
   \<and> (s = [] \<or> \<not> list_all (\<lambda>c. \<not> lineTerminator c) s \<longrightarrow>
        normalizeContact (JStr (''('' @ s @ '')'')) = JStr (''('' @ s @ '')''))
   \<and> ((\<forall>t. u \<noteq> ''('' @ t @ '')'') \<longrightarrow> normalizeContact (JStr u) = JStr u)
   \<and> (\<not> list_all (\<lambda>c. \<not> lineTerminator c) s \<longrightarrow>
        constructor sv pd
          (JObj [(''requestTimeout'', rt), (''requestInterval'', ri),
                 (''userAgent'', JObj [(''name'', nm), (''version'', ver),
                                       (''contact'', JStr (''('' @ s @ '')''))])])
        \<noteq> Inr c)
   \<and> normalizeContact JNull = JStr []
   \<and> normalizeContact JUndefined = JUndefined
   \<and> validateOptions sv rt ri nm ver (normalizeContact JUndefined) \<noteq> None
   \<and> validateOptions sv rt ri nm ver (normalizeContact JUndefined)
       = Some (case firstFailure [durationVerdict 500 30000 rt, durationVerdict 500 5000 ri,
                                  nameVerdict nm, versionVerdict sv ver] of
                 None \<Rightarrow> TypeError | Some e \<Rightarrow> e)
   \<and> constructor sv pd
          (JObj [(''requestTimeout'', rt), (''requestInterval'', ri),
                 (''userAgent'', JObj [(''name'', nm), (''version'', ver)])])
       = Inl (case firstFailure [durationVerdict 500 30000 (nullish rt (JNum (Fin 10000))),
                                 durationVerdict 500 5000 (nullish ri (JNum (Fin 1000))),
                                 nameVerdict nm, versionVerdict sv ver] of
                 None \<Rightarrow> TypeError | Some e \<Rightarrow> e)"
proof -
  have a: "normalizeContact (JStr x) = JStr (stripParens x)" for x
    unfolding normalizeContact_def by simp
  have b: "normalizeContact JNull = JStr []" "normalizeContact JUndefined = JUndefined"
    unfolding normalizeContact_def by simp_all
  have c: "validateOptions sv rt ri nm ver JUndefined \<noteq> None"
    unfolding absent_contact_rejected by simp
  have d: "constructor sv pd
          (JObj [(''requestTimeout'', rt), (''requestInterval'', ri),
                 (''userAgent'', JObj [(''name'', nm), (''version'', ver)])])
       = Inl (case firstFailure [durationVerdict 500 30000 (nullish rt (JNum (Fin 10000))),
                                 durationVerdict 500 5000 (nullish ri (JNum (Fin 1000))),
                                 nameVerdict nm, versionVerdict sv ver] of
                 None \<Rightarrow> TypeError | Some e \<Rightarrow> e)"
    unfolding constructor_def Let_def
    by (simp add: b absent_contact_rejected)
  have e: "constructor sv pd
          (JObj [(''requestTimeout'', rt), (''requestInterval'', ri),
                 (''userAgent'', JObj [(''name'', nm), (''version'', ver),
                                       (''contact'', JStr (''('' @ s @ '')''))])])
        \<noteq> Inr c" if nl: "\<not> list_all (\<lambda>c. \<not> lineTerminator c) s"
  proof -
    define t where "t = ''('' @ s @ '')''"
    from nl obtain x where x: "x \<in> set s" "lineTerminator x"
      unfolding list_all_iff by blast
    have kept: "normalizeContact (JStr t) = JStr t"
      unfolding a t_def stripParens_wrapped using nl by simp
    have "x \<in> set t" using x(1) unfolding t_def by simp
    then have "\<not> legalHeaderValue t"
      using lineTerminator_illegal[OF x(2)] by blast
    then have bad: "\<not> legalHeaderValue (userAgentString pd n v t)" for n v
      using legalHeaderValue_contact by blast
    have "constructor sv pd
          (JObj [(''requestTimeout'', rt), (''requestInterval'', ri),
                 (''userAgent'', JObj [(''name'', nm), (''version'', ver),
                                       (''contact'', JStr t)])])
        \<noteq> Inr c"
      unfolding constructor_explicit kept
      by (simp add: generateHeaders_result bad split: option.splits)
    then show ?thesis unfolding t_def .
  qed
  show ?thesis
    using normalizeContact_strings[of ss] stripParens_wrapped[of s] stripParens_other[of u]
      a b c d e absent_contact_rejected[of sv rt ri nm ver]
    by simp
qed

theorem normalizeContact_cases_witness:
  "normalizeContact (JArr [JStr ''https://example.com'', JStr ''a@example.com''])
     = JStr ''https://example.com; a@example.com''
   \<and> normalizeContact (JStr ''(123-4567)'') = JStr ''123-4567''
   \<and> normalizeContact (JStr ''((x))'') = JStr ''(x)''
   \<and> normalizeContact (JStr ''()'') = JStr ''()''
   \<and> normalizeContact (JStr ''123-4567'') = JStr ''123-4567''
   \<and> constructor sampleSemver samplePackage
        (JObj [(''requestTimeout'', JUndefined), (''requestInterval'', JUndefined),
               (''userAgent'', JObj [(''name'', JStr ''abot''), (''version'', JStr ''1.0.0''),
                  (''contact'', JStr (''('' @ [CHR ''a'', CHR 0x0A, CHR ''b''] @ '')''))])])
       \<noteq> Inr \<lparr>requestTimeout = Fin 10000, requestInterval = Fin 1000, name = ''abot'',
               version = ''1.0.0'', contact = [CHR ''a'', CHR 0x0A, CHR ''b''],
               userAgent = [], headers = []\<rparr>
   \<and> validateOptions sampleSemver (JNum (Fin 10000)) (JNum (Fin 1000)) (JStr ''abot'')
        (JStr ''1.0.0'') (normalizeContact JUndefined) = Some TypeError
   \<and> validateOptions sampleSemver (JNum (Fin 499)) (JNum (Fin 1000)) (JStr ''abot'')
        (JStr ''1.0.0'') (normalizeContact JUndefined) = Some RangeError
   \<and> constructor sampleSemver samplePackage
        (JObj [(''requestTimeout'', JUndefined), (''requestInterval'', JUndefined),
               (''userAgent'', JObj [(''name'', JStr ''abot''), (''version'', JStr ''1.0.0'')])])
       = Inl TypeError"
proof -
  have v: "nameVerdict (JStr ''abot'') = Accepted"
    "versionVerdict sampleSemver (JStr ''1.0.0'') = Accepted"
    unfolding nameVerdict_code versionVerdict_def
    by (simp_all add: sampleSemver_def toLowerCase_def lowerChar_def)
  have d: "durationVerdict 500 30000 (JNum (Fin 10000)) = Accepted"
    "durationVerdict 500 5000 (JNum (Fin 1000)) = Accepted"
    "durationVerdict 500 30000 (JNum (Fin 499)) = OutOfRange"
    by (simp_all add: durationVerdict_def)
  have nl: "\<not> list_all (\<lambda>c. \<not> lineTerminator c) [CHR ''a'', CHR 0x0A, CHR ''b'']"
    by (simp add: lineTerminator_def)
  have p: "(\<forall>t. ''123-4567'' \<noteq> ''('' @ t @ '')'')" by simp
  note 1 = normalizeContact_cases[of "[''https://example.com'', ''a@example.com'']"
      "''123-4567''" "''123-4567''" sampleSemver samplePackage JUndefined JUndefined
      "JStr ''abot''" "JStr ''1.0.0''"
      "\<lparr>requestTimeout = Fin 10000, requestInterval = Fin 1000, name = ''abot'',
               version = ''1.0.0'', contact = [CHR ''a'', CHR 0x0A, CHR ''b''],
               userAgent = [], headers = []\<rparr>"]
  note 2 = normalizeContact_cases[of "[]" "''(x)''" "''x''"]
  note 3 = normalizeContact_cases[of "[]" "[]" "''x''"]
  note 4 = normalizeContact_cases[of "[]" "[CHR ''a'', CHR 0x0A, CHR ''b'']" "''x''"
      sampleSemver samplePackage JUndefined JUndefined "JStr ''abot''" "JStr ''1.0.0''"
      "\<lparr>requestTimeout = Fin 10000, requestInterval = Fin 1000, name = ''abot'',
               version = ''1.0.0'', contact = [CHR ''a'', CHR 0x0A, CHR ''b''],
               userAgent = [], headers = []\<rparr>"]
  note 5 = normalizeContact_cases[of "[]" "''x''" "''x''" sampleSemver samplePackage
      "JNum (Fin 10000)" "JNum (Fin 1000)" "JStr ''abot''" "JStr ''1.0.0''"
      "\<lparr>requestTimeout = Fin 10000, requestInterval = Fin 1000, name = ''abot'',
               version = ''1.0.0'', contact = [CHR ''a'', CHR 0x0A, CHR ''b''],
               userAgent = [], headers = []\<rparr>"]
  note 6 = normalizeContact_cases[of "[]" "''x''" "''x''" sampleSemver samplePackage
      "JNum (Fin 499)" "JNum (Fin 1000)" "JStr ''abot''" "JStr ''1.0.0''"
      "\<lparr>requestTimeout = Fin 10000, requestInterval = Fin 1000, name = ''abot'',
               version = ''1.0.0'', contact = [CHR ''a'', CHR 0x0A, CHR ''b''],
               userAgent = [], headers = []\<rparr>"]
  have c1: "normalizeContact (JArr [JStr ''https://example.com'', JStr ''a@example.com''])
     = JStr ''https://example.com; a@example.com''"
    using 1 by simp
  have c2: "normalizeContact (JStr ''(123-4567)'') = JStr ''123-4567''"
    using 1 by (simp add: lineTerminator_def)
  have c3: "normalizeContact (JStr ''((x))'') = JStr ''(x)''"
    using 2 by (simp add: lineTerminator_def)
  have c4: "normalizeContact (JStr ''()'') = JStr ''()''"
    using 3 by simp
  have c5: "normalizeContact (JStr ''123-4567'') = JStr ''123-4567''"
    using 1 p by blast
  have c6: "constructor sampleSemver samplePackage
        (JObj [(''requestTimeout'', JUndefined), (''requestInterval'', JUndefined),
               (''userAgent'', JObj [(''name'', JStr ''abot''), (''version'', JStr ''1.0.0''),
                  (''contact'', JStr (''('' @ [CHR ''a'', CHR 0x0A, CHR ''b''] @ '')''))])])
       \<noteq> Inr \<lparr>requestTimeout = Fin 10000, requestInterval = Fin 1000, name = ''abot'',
               version = ''1.0.0'', contact = [CHR ''a'', CHR 0x0A, CHR ''b''],
               userAgent = [], headers = []\<rparr>"
    using 4 nl by blast
  have c7: "validateOptions sampleSemver (JNum (Fin 10000)) (JNum (Fin 1000)) (JStr ''abot'')
        (JStr ''1.0.0'') (normalizeContact JUndefined) = Some TypeError"
  proof -
    have "validateOptions sampleSemver (JNum (Fin 10000)) (JNum (Fin 1000)) (JStr ''abot'')
        (JStr ''1.0.0'') (normalizeContact JUndefined)
       = Some (case firstFailure [durationVerdict 500 30000 (JNum (Fin 10000)),
                 durationVerdict 500 5000 (JNum (Fin 1000)), nameVerdict (JStr ''abot''),
                 versionVerdict sampleSemver (JStr ''1.0.0'')] of
                 None \<Rightarrow> TypeError | Some e \<Rightarrow> e)"
      using 5 by blast
    then show ?thesis unfolding v d by simp
  qed
  have c8: "validateOptions sampleSemver (JNum (Fin 499)) (JNum (Fin 1000)) (JStr ''abot'')
        (JStr ''1.0.0'') (normalizeContact JUndefined) = Some RangeError"
  proof -
    have "validateOptions sampleSemver (JNum (Fin 499)) (JNum (Fin 1000)) (JStr ''abot'')
        (JStr ''1.0.0'') (normalizeContact JUndefined)
       = Some (case firstFailure [durationVerdict 500 30000 (JNum (Fin 499)),
                 durationVerdict 500 5000 (JNum (Fin 1000)), nameVerdict (JStr ''abot''),
                 versionVerdict sampleSemver (JStr ''1.0.0'')] of
                 None \<Rightarrow> TypeError | Some e \<Rightarrow> e)"
      using 6 by blast
    then show ?thesis unfolding v d by simp
  qed
  have c9: "constructor sampleSemver samplePackage
        (JObj [(''requestTimeout'', JUndefined), (''requestInterval'', JUndefined),
               (''userAgent'', JObj [(''name'', JStr ''abot''), (''version'', JStr ''1.0.0'')])])
       = Inl TypeError"
  proof -
    have "constructor sampleSemver samplePackage
        (JObj [(''requestTimeout'', JUndefined), (''requestInterval'', JUndefined),
               (''userAgent'', JObj [(''name'', JStr ''abot''), (''version'', JStr ''1.0.0'')])])
       = Inl (case firstFailure [durationVerdict 500 30000 (nullish JUndefined (JNum (Fin 10000))),
                                 durationVerdict 500 5000 (nullish JUndefined (JNum (Fin 1000))),
                                 nameVerdict (JStr ''abot''),
                                 versionVerdict sampleSemver (JStr ''1.0.0'')] of
                 None \<Rightarrow> TypeError | Some e \<Rightarrow> e)"
      using 1 by blast
    then show ?thesis unfolding nullish.simps v d by simp
  qed
  show ?thesis using c1 c2 c3 c4 c5 c6 c7 c8 c9 by blast
qed

text \<open>
  The claim as stated fails for an absent contact: with a \<^verbatim>\<open>userAgent\<close> option that has
  no \<^verbatim>\<open>contact\<close> property the constructor throws a TypeError instead of storing the
  empty string.  It also fails for the wrapped empty text: the client is created and its
  contact keeps the parentheses.
\<close>

theorem contact_normalization_counterexample:
  "constructor sampleSemver samplePackage
      (JObj [(''userAgent'', JObj [(''name'', JStr ''abot''), (''version'', JStr ''1.0.0'')])])
     = Inl TypeError
   \<and> normalizeContact JUndefined \<noteq> JStr []
   \<and> constructor sampleSemver samplePackage
      (JObj [(''userAgent'', JObj [(''name'', JStr ''abot''), (''version'', JStr ''1.0.0''),
                                   (''contact'', JStr ''()'')])])
     = Inr \<lparr>requestTimeout = Fin 10000, requestInterval = Fin 1000, name = ''abot'',
            version = ''1.0.0'', contact = ''()'',
            userAgent = ''abot/1.0.0 (()) hololive-wiki/0.1.0'',
            headers = [(''User-Agent'', ''abot/1.0.0 (()) hololive-wiki/0.1.0''),
                       (''Accept-Encoding'', ''gzip''), (''Connection'', ''keep-alive'')]\<rparr>"
  by code_simp

subsection \<open>The User-Agent string\<close>

text \<open>
  Claim C9.  For every configuration the constructor accepts, the User-Agent string is
  name, a slash, version, a space, the contact in parentheses followed by a space, and the
  name and version of the library separated by a slash; the parenthesised part is left out
  when the contact is empty.  The string is a legal header value and heads the header set.
  The name, version and contact are those of the configuration, the contact normalised.
  For the name "abot", the version "1.0.0" (taken to be a valid version) and the contact
  \<^verbatim>\<open>null\<close> the client is created whenever the library's own name and version are legal
  header text, and its User-Agent string is "abot/1.0.0 " followed by the library's name
  and version; otherwise \<^verbatim>\<open>new Headers\<close> throws.
\<close>

theorem userAgent_format:
  "(constructor sv pd arg = Inr c \<longrightarrow>
      userAgent c =
        (if contact c = []
         then name c @ ''/'' @ version c @ '' '' @ pd_name pd @ ''/'' @ pd_version pd
         else name c @ ''/'' @ version c @ '' ('' @ contact c @ '') ''
                @ pd_name pd @ ''/'' @ pd_version pd)
      \<and> headers c = [(''User-Agent'', userAgent c), (''Accept-Encoding'', ''gzip''),
                      (''Connection'', ''keep-alive'')]
      \<and> legalHeaderValue (userAgent c))
   \<and> (constructor sv pd
         (JObj [(''requestTimeout'', rt), (''requestInterval'', ri),
                (''userAgent'', JObj [(''name'', nm), (''version'', ver), (''contact'', ct)])])
        = Inr c \<longrightarrow>
      nm = JStr (name c) \<and> ver = JStr (version c) \<and> normalizeContact ct = JStr (contact c))
   \<and> (sv ''1.0.0'' \<longrightarrow>
        constructor sv pd
          (JObj [(''userAgent'', JObj [(''name'', JStr ''abot''),
                   (''version'', JStr ''1.0.0''), (''contact'', JNull)])])
        = (if legalHeaderValue (pd_name pd @ ''/'' @ pd_version pd)
           then Inr \<lparr>requestTimeout = Fin 10000, requestInterval = Fin 1000,
                      name = ''abot'', version = ''1.0.0'', contact = [],
                      userAgent = ''abot/1.0.0 '' @ pd_name pd @ ''/'' @ pd_version pd,
                      headers = [(''User-Agent'',
                                   ''abot/1.0.0 '' @ pd_name pd @ ''/'' @ pd_version pd),
                                 (''Accept-Encoding'', ''gzip''),
                                 (''Connection'', ''keep-alive'')]\<rparr>
           else Inl TypeError))"
proof (intro conjI impI)
  assume "constructor sv pd arg = Inr c"
  then obtain c0 where g: "generateHeaders pd c0 = Inr c"
    unfolding constructor_Inr by blast
  note r = generateHeaders_Inr[OF g]
  show "userAgent c =
        (if contact c = []
         then name c @ ''/'' @ version c @ '' '' @ pd_name pd @ ''/'' @ pd_version pd
         else name c @ ''/'' @ version c @ '' ('' @ contact c @ '') ''
                @ pd_name pd @ ''/'' @ pd_version pd)"
    unfolding r(2) userAgentString_def by simp
  show "headers c = [(''User-Agent'', userAgent c), (''Accept-Encoding'', ''gzip''),
                      (''Connection'', ''keep-alive'')]"
    unfolding r(2) by simp
  show "legalHeaderValue (userAgent c)"
    using r(1) unfolding r(2) by simp
next
  assume a: "constructor sv pd
         (JObj [(''requestTimeout'', rt), (''requestInterval'', ri),
                (''userAgent'', JObj [(''name'', nm), (''version'', ver), (''contact'', ct)])])
        = Inr c"
  then obtain rt' ri' where v: "validateOptions sv rt' ri' nm ver (normalizeContact ct) = None"
    and g: "generateHeaders pd
            \<lparr>requestTimeout = numOf rt', requestInterval = numOf ri',
             name = strOf nm, version = strOf ver, contact = strOf (normalizeContact ct),
             userAgent = [], headers = []\<rparr> = Inr c"
    unfolding constructor_explicit by (auto split: option.splits)
  show "nm = JStr (name c)" "ver = JStr (version c)" "normalizeContact ct = JStr (contact c)"
    using validateOptions_None_strings[OF v] unfolding generateHeaders_Inr(2)[OF g] by simp_all
next
  assume sv: "sv ''1.0.0''"
  have v: "validateOptions sv (JNum (Fin 10000)) (JNum (Fin 1000)) (JStr ''abot'') (JStr ''1.0.0'')
          (JStr []) = None"
    unfolding validateOptions_def using sv
    by (simp add: num_gt_def toLowerCase_def lowerChar_def)
  have l: "legalHeaderValue (''abot/1.0.0 '' @ x) \<longleftrightarrow> legalHeaderValue x" for x
    unfolding legalHeaderValue_append by (simp add: legalHeaderValue_def)
  have u: "userAgentString pd ''abot'' ''1.0.0'' []
             = ''abot/1.0.0 '' @ pd_name pd @ ''/'' @ pd_version pd"
    unfolding userAgentString_def by simp
  show "constructor sv pd
          (JObj [(''userAgent'', JObj [(''name'', JStr ''abot''),
                   (''version'', JStr ''1.0.0''), (''contact'', JNull)])])
        = (if legalHeaderValue (pd_name pd @ ''/'' @ pd_version pd)
           then Inr \<lparr>requestTimeout = Fin 10000, requestInterval = Fin 1000,
                      name = ''abot'', version = ''1.0.0'', contact = [],
                      userAgent = ''abot/1.0.0 '' @ pd_name pd @ ''/'' @ pd_version pd,
                      headers = [(''User-Agent'',
                                   ''abot/1.0.0 '' @ pd_name pd @ ''/'' @ pd_version pd),
                                 (''Accept-Encoding'', ''gzip''),
                                 (''Connection'', ''keep-alive'')]\<rparr>
           else Inl TypeError)"
  proof (cases "legalHeaderValue (pd_name pd @ ''/'' @ pd_version pd)")
    case True
    then have "legalHeaderValue (userAgentString pd ''abot'' ''1.0.0'' [])"
      unfolding u l .
    then show ?thesis
      unfolding constructor_def Let_def using True
      by (simp add: normalizeContact_def v generateHeaders_result) (simp add: u)
  next
    case False
    then have "\<not> legalHeaderValue (userAgentString pd ''abot'' ''1.0.0'' [])"
      unfolding u l .
    then show ?thesis
      unfolding constructor_def Let_def using False
      by (simp add: normalizeContact_def v generateHeaders_result)
  qed
qed

theorem userAgent_format_witness:
  "constructor sampleSemver samplePackage
     (JObj [(''requestTimeout'', JNum (Fin 500)), (''requestInterval'', JNum (Fin 5000)),
            (''userAgent'', JObj [(''name'', JStr ''WikiBot''), (''version'', JStr ''1.0.0''),
                                  (''contact'', JStr ''(123-4567)'')])])
     = Inr \<lparr>requestTimeout = Fin 500, requestInterval = Fin 5000, name = ''WikiBot'',
            version = ''1.0.0'', contact = ''123-4567'',
            userAgent = ''WikiBot/1.0.0 (123-4567) hololive-wiki/0.1.0'',
            headers = [(''User-Agent'', ''WikiBot/1.0.0 (123-4567) hololive-wiki/0.1.0''),
                       (''Accept-Encoding'', ''gzip''), (''Connection'', ''keep-alive'')]\<rparr>
   \<and> legalHeaderValue ''WikiBot/1.0.0 (123-4567) hololive-wiki/0.1.0''
   \<and> sampleSemver ''1.0.0''
   \<and> legalHeaderValue (pd_name samplePackage @ ''/'' @ pd_version samplePackage)
   \<and> constructor sampleSemver samplePackage
        (JObj [(''userAgent'', JObj [(''name'', JStr ''abot''),
                 (''version'', JStr ''1.0.0''), (''contact'', JNull)])])
      = Inr \<lparr>requestTimeout = Fin 10000, requestInterval = Fin 1000,
               name = ''abot'', version = ''1.0.0'', contact = [],
               userAgent = ''abot/1.0.0 hololive-wiki/0.1.0'',
               headers = [(''User-Agent'', ''abot/1.0.0 hololive-wiki/0.1.0''),
                          (''Accept-Encoding'', ''gzip''),
                          (''Connection'', ''keep-alive'')]\<rparr>"
proof -
  let ?opts = "JObj [(''requestTimeout'', JNum (Fin 500)), (''requestInterval'', JNum (Fin 5000)),
            (''userAgent'', JObj [(''name'', JStr ''WikiBot''), (''version'', JStr ''1.0.0''),
                                  (''contact'', JStr ''(123-4567)'')])]"
  let ?c = "\<lparr>requestTimeout = Fin 500, requestInterval = Fin 5000, name = ''WikiBot'',
            version = ''1.0.0'', contact = ''123-4567'',
            userAgent = ''WikiBot/1.0.0 (123-4567) hololive-wiki/0.1.0'',
            headers = [(''User-Agent'', ''WikiBot/1.0.0 (123-4567) hololive-wiki/0.1.0''),
                       (''Accept-Encoding'', ''gzip''), (''Connection'', ''keep-alive'')]\<rparr>"
  have run: "constructor sampleSemver samplePackage ?opts = Inr ?c"
    by code_simp
  have sv: "sampleSemver ''1.0.0''" by (simp add: sampleSemver_def)
  have lib: "legalHeaderValue (pd_name samplePackage @ ''/'' @ pd_version samplePackage)"
    by code_simp
  note t = userAgent_format[of sampleSemver samplePackage ?opts ?c "JNum (Fin 500)"
        "JNum (Fin 5000)" "JStr ''WikiBot''" "JStr ''1.0.0''" "JStr ''(123-4567)''"]
  have 1: "legalHeaderValue (userAgent ?c)" using t run by blast
  have 2: "constructor sampleSemver samplePackage
        (JObj [(''userAgent'', JObj [(''name'', JStr ''abot''),
                 (''version'', JStr ''1.0.0''), (''contact'', JNull)])])
      = Inr \<lparr>requestTimeout = Fin 10000, requestInterval = Fin 1000,
               name = ''abot'', version = ''1.0.0'', contact = [],
               userAgent = ''abot/1.0.0 '' @ pd_name samplePackage @ ''/''
                             @ pd_version samplePackage,
               headers = [(''User-Agent'', ''abot/1.0.0 '' @ pd_name samplePackage @ ''/''
                             @ pd_version samplePackage),
                          (''Accept-Encoding'', ''gzip''),
                          (''Connection'', ''keep-alive'')]\<rparr>"
    using t sv lib by simp
  show ?thesis
    using run 1 sv lib 2 by (simp add: samplePackage_def)
qed

subsection \<open>NaN as a duration\<close>

text \<open>
  Claim C10.  Whenever an options object is accepted, the same options with
  requestTimeout set to NaN, or with requestInterval set to NaN, are accepted too, and the
  client is created with NaN as that duration and is otherwise the same.
\<close>

theorem nan_duration_accepted:
  assumes "constructor sv pd (JObj kvs) = Inr c"
  shows "constructor sv pd (JObj ((''requestTimeout'', JNum NaN) # kvs))
           = Inr (c\<lparr>requestTimeout := NaN\<rparr>)
       \<and> constructor sv pd (JObj ((''requestInterval'', JNum NaN) # kvs))
           = Inr (c\<lparr>requestInterval := NaN\<rparr>)"
proof -
  from assms obtain rt0 ri0 ua0 ua nm ver ct0 where
    g: "getProp (JObj kvs) ''requestTimeout'' = Inr rt0"
       "getProp (JObj kvs) ''requestInterval'' = Inr ri0"
       "getProp (JObj kvs) ''userAgent'' = Inr ua0"
       "(if ua0 = JUndefined then defaultUserAgent pd else Inr ua0) = Inr ua"
       "getProp ua ''name'' = Inr nm" "getProp ua ''version'' = Inr ver"
       "getProp ua ''contact'' = Inr ct0"
    and v: "validateOptions sv (nullish rt0 (JNum (Fin 10000))) (nullish ri0 (JNum (Fin 1000)))
            nm ver (normalizeContact ct0) = None"
    and c: "generateHeaders pd
            \<lparr>requestTimeout = numOf (nullish rt0 (JNum (Fin 10000))),
             requestInterval = numOf (nullish ri0 (JNum (Fin 1000))),
             name = strOf nm, version = strOf ver, contact = strOf (normalizeContact ct0),
             userAgent = [], headers = []\<rparr> = Inr c"
    unfolding constructor_Inr by (simp only: jsval.distinct if_False) blast
  let ?rt = "nullish rt0 (JNum (Fin 10000))" and ?ri = "nullish ri0 (JNum (Fin 1000))"
  have vs: "firstFailure [durationVerdict 500 30000 ?rt, durationVerdict 500 5000 ?ri,
              nameVerdict nm, versionVerdict sv ver, contactVerdict (normalizeContact ct0)] = None"
    using v unfolding validateOptions_verdicts .
  have nan: "durationVerdict lo hi (JNum NaN) = Accepted" for lo hi
    by (simp add: durationVerdict_def)
  have v1: "validateOptions sv (JNum NaN) ?ri nm ver (normalizeContact ct0) = None"
    using vs unfolding validateOptions_verdicts firstFailure_None by (simp add: nan)
  have v2: "validateOptions sv ?rt (JNum NaN) nm ver (normalizeContact ct0) = None"
    using vs unfolding validateOptions_verdicts firstFailure_None by (simp add: nan)
  have g1: "getProp (JObj ((''requestTimeout'', JNum NaN) # kvs)) ''requestTimeout'' = Inr (JNum NaN)"
    "getProp (JObj ((''requestTimeout'', JNum NaN) # kvs)) ''requestInterval'' = Inr ri0"
    "getProp (JObj ((''requestTimeout'', JNum NaN) # kvs)) ''userAgent'' = Inr ua0"
    using g by simp_all
  have g2: "getProp (JObj ((''requestInterval'', JNum NaN) # kvs)) ''requestTimeout'' = Inr rt0"
    "getProp (JObj ((''requestInterval'', JNum NaN) # kvs)) ''requestInterval'' = Inr (JNum NaN)"
    "getProp (JObj ((''requestInterval'', JNum NaN) # kvs)) ''userAgent'' = Inr ua0"
    using g by simp_all
  note r = generateHeaders_Inr[OF c]
  have 1: "constructor sv pd (JObj ((''requestTimeout'', JNum NaN) # kvs))
           = Inr (c\<lparr>requestTimeout := NaN\<rparr>)"
  proof -
    have "constructor sv pd (JObj ((''requestTimeout'', JNum NaN) # kvs))
           = generateHeaders pd
               \<lparr>requestTimeout = NaN,
                requestInterval = numOf (nullish ri0 (JNum (Fin 1000))),
                name = strOf nm, version = strOf ver,
                contact = strOf (normalizeContact ct0), userAgent = [], headers = []\<rparr>"
      unfolding constructor_def Let_def
      by (simp only: jsval.distinct if_False g1 g(4-7) bindE.simps nullish.simps v1
            option.case numOf.simps)
    then show ?thesis unfolding generateHeaders_result using r by simp
  qed
  have 2: "constructor sv pd (JObj ((''requestInterval'', JNum NaN) # kvs))
           = Inr (c\<lparr>requestInterval := NaN\<rparr>)"
  proof -
    have "constructor sv pd (JObj ((''requestInterval'', JNum NaN) # kvs))
           = generateHeaders pd
               \<lparr>requestTimeout = numOf (nullish rt0 (JNum (Fin 10000))),
                requestInterval = NaN,
                name = strOf nm, version = strOf ver,
                contact = strOf (normalizeContact ct0), userAgent = [], headers = []\<rparr>"
      unfolding constructor_def Let_def
      by (simp only: jsval.distinct if_False g2 g(4-7) bindE.simps nullish.simps v2
            option.case numOf.simps)
    then show ?thesis unfolding generateHeaders_result using r by simp
  qed
  show ?thesis using 1 2 by simp
qed

theorem nan_duration_accepted_witness:
  "constructor sampleSemver samplePackage
     (JObj [(''requestTimeout'', JNum NaN),
            (''userAgent'', JObj [(''name'', JStr ''abot''), (''version'', JStr ''1.0.0''),
                                  (''contact'', JNull)])])
     = Inr \<lparr>requestTimeout = NaN, requestInterval = Fin 1000, name = ''abot'',
            version = ''1.0.0'', contact = [],
            userAgent = ''abot/1.0.0 hololive-wiki/0.1.0'',
            headers = [(''User-Agent'', ''abot/1.0.0 hololive-wiki/0.1.0''),
                       (''Accept-Encoding'', ''gzip''), (''Connection'', ''keep-alive'')]\<rparr>
   \<and> constructor sampleSemver samplePackage
     (JObj [(''requestInterval'', JNum NaN),
            (''userAgent'', JObj [(''name'', JStr ''abot''), (''version'', JStr ''1.0.0''),
                                  (''contact'', JNull)])])
     = Inr \<lparr>requestTimeout = Fin 10000, requestInterval = NaN, name = ''abot'',
            version = ''1.0.0'', contact = [],
            userAgent = ''abot/1.0.0 hololive-wiki/0.1.0'',
            headers = [(''User-Agent'', ''abot/1.0.0 hololive-wiki/0.1.0''),
                       (''Accept-Encoding'', ''gzip''), (''Connection'', ''keep-alive'')]\<rparr>"
proof -
  let ?kvs = "[(''userAgent'', JObj [(''name'', JStr ''abot''), (''version'', JStr ''1.0.0''),
                                  (''contact'', JNull)])]"
  let ?c = "\<lparr>requestTimeout = Fin 10000, requestInterval = Fin 1000, name = ''abot'',
            version = ''1.0.0'', contact = [],
            userAgent = ''abot/1.0.0 hololive-wiki/0.1.0'',
            headers = [(''User-Agent'', ''abot/1.0.0 hololive-wiki/0.1.0''),
                       (''Accept-Encoding'', ''gzip''), (''Connection'', ''keep-alive'')]\<rparr>"
  have run: "constructor sampleSemver samplePackage (JObj ?kvs) = Inr ?c"
    by code_simp
  show ?thesis
    using nan_duration_accepted[OF run] by simp
qed

section \<open>The scheduler\<close>

subsection \<open>At most one dispatch timer\<close>

lemma singleFlight_init: "singleFlight initWorld"
  unfolding singleFlight_def initWorld_def by simp

lemma singleFlight_clearTimeout: "singleFlight w \<Longrightarrow> singleFlight (clearTimeout h w)"
  unfolding singleFlight_def clearTimeout_def by (auto simp: distinct_map_filter)

lemma singleFlight_setRequest:
  assumes "singleFlight w"
  shows "singleFlight (setRequest c now d w)"
proof (cases "timeout (manager w)")
  case None
  then have no: "\<forall>(h, t) \<in> set (timers w). callback t \<noteq> SendRequestsFn"
    using assms unfolding singleFlight_def by auto
  show ?thesis
    using assms no None unfolding singleFlight_def setRequest_def setTimeout_def Let_def
    by (auto simp: less_Suc_eq)
next
  case (Some h)
  then show ?thesis
    using assms unfolding singleFlight_def setRequest_def Let_def by simp
qed

lemma singleFlight_sendRequests:
  assumes "singleFlight w" "sendRequests c this now w = Inr w'"
  shows "singleFlight w'"
  using assms unfolding singleFlight_def sendRequests_def setTimeout_def Let_def
  by (fastforce simp: less_Suc_eq split: if_splits)

lemma singleFlight_abort:
  assumes "singleFlight w" "abort this w = Inr w'"
  shows "singleFlight w'"
  using assms unfolding singleFlight_def abort_def
  by (cases this) auto

lemma singleFlight_uncaught:
  "singleFlight w \<Longrightarrow> singleFlight (w\<lparr>uncaught := es\<rparr>)"
  unfolding singleFlight_def by simp

lemma singleFlight_fireTimer:
  assumes "singleFlight w"
  shows "singleFlight (fireTimer c now h w)"
proof (cases "map_of (timers w) h")
  case None
  then show ?thesis using assms unfolding fireTimer_def by simp
next
  case (Some t)
  have w1: "singleFlight (clearTimeout h w)" using assms by (rule singleFlight_clearTimeout)
  show ?thesis
  proof (cases "callback t")
    case SendRequestsFn
    show ?thesis
      using Some SendRequestsFn w1 singleFlight_uncaught[OF w1]
      unfolding fireTimer_def Let_def
      by (auto split: sum.splits dest: singleFlight_sendRequests)
  next
    case AbortFn
    show ?thesis
      using Some AbortFn w1 singleFlight_uncaught[OF w1]
      unfolding fireTimer_def Let_def
      by (auto split: sum.splits dest: singleFlight_abort)
  qed
qed

lemma singleFlight_inflight:
  "singleFlight w \<Longrightarrow> singleFlight (w\<lparr>inflight := cs\<rparr>)"
  unfolding singleFlight_def by simp

lemma singleFlight_settle:
  assumes "singleFlight w"
  shows "singleFlight (settle out k w)"
  using assms singleFlight_clearTimeout singleFlight_inflight
  unfolding settle_def by (auto split: option.splits)

lemma singleFlight_step: "singleFlight w \<Longrightarrow> singleFlight (step c e w)"
proof (cases e)
  case (Dispatch now)
  assume "singleFlight w"
  then show ?thesis using Dispatch
    by (auto split: sum.splits dest: singleFlight_sendRequests)
qed (simp_all add: singleFlight_setRequest singleFlight_fireTimer singleFlight_settle)

lemma singleFlight_run: "singleFlight w \<Longrightarrow> singleFlight (run c es w)"
  by (induction es arbitrary: w) (simp_all add: singleFlight_step)

lemma distinct_all_equal:
  assumes "distinct xs" "\<forall>x \<in> set xs. x = a"
  shows "length xs \<le> 1"
proof (cases xs)
  case Nil
  then show ?thesis by simp
next
  case (Cons x ys)
  have "ys = []"
  proof (cases ys)
    case (Cons y zs)
    then show ?thesis using assms \<open>xs = x # ys\<close> by auto
  qed simp
  then show ?thesis using Cons by simp
qed

lemma singleFlight_at_most_one:
  assumes "singleFlight w"
  shows "length (dispatchTimers w) \<le> 1"
proof (cases "timeout (manager w)")
  case None
  then have "dispatchTimers w = []"
    using assms unfolding singleFlight_def dispatchTimers_def by (auto simp: filter_empty_conv)
  then show ?thesis by simp
next
  case (Some h)
  have d: "distinct (map fst (dispatchTimers w))"
    using assms unfolding singleFlight_def dispatchTimers_def by (simp add: distinct_map_filter)
  have "\<forall>x \<in> set (map fst (dispatchTimers w)). x = h"
    using assms Some unfolding singleFlight_def dispatchTimers_def by auto
  then have "length (map fst (dispatchTimers w)) \<le> 1"
    using d by (rule distinct_all_equal[rotated])
  then show ?thesis by simp
qed

lemma setRequest_armed:
  assumes "timeout (manager w) \<noteq> None"
  shows "setRequest c now d w = w\<lparr>manager := (manager w)\<lparr>queue := queue (manager w) @ [d]\<rparr>\<rparr>"
proof -
  from assms obtain h where "timeout (manager w) = Some h" by blast
  then show ?thesis unfolding setRequest_def Let_def by simp
qed

text \<open>
  Claim C2.  After any sequence of events on a new client (submissions, the dispatch
  method called on the client, timers firing, transport calls settling) at most one dispatch
  timer is live; and a submission that finds the timer handle set only appends the
  descriptor to the queue: the rest of the state, the timers among it, is unchanged.
\<close>

theorem single_flight_timer:
  "length (dispatchTimers (run c evs initWorld)) \<le> 1
   \<and> (timeout (manager w) \<noteq> None \<longrightarrow>
        setRequest c now d w = w\<lparr>manager := (manager w)\<lparr>queue := queue (manager w) @ [d]\<rparr>\<rparr>
        \<and> timers (setRequest c now d w) = timers w)"
  using singleFlight_at_most_one[OF singleFlight_run[OF singleFlight_init]]
    setRequest_armed[of w c now d]
  by simp

theorem single_flight_timer_witness:
  "timeout (manager (run sampleClient [Submit 10000 ''a''] initWorld)) \<noteq> None
   \<and> length (dispatchTimers
        (run sampleClient [Submit 10000 ''a'', Submit 10200 ''b'', Submit 10400 ''c'']
           initWorld)) \<le> 1
   \<and> setRequest sampleClient 10200 ''b'' (run sampleClient [Submit 10000 ''a''] initWorld)
      = (run sampleClient [Submit 10000 ''a''] initWorld)
          \<lparr>manager := \<lparr>queue = [''a'', ''b''], nextReq = 0, timeout = Some 1\<rparr>\<rparr>
   \<and> timers (setRequest sampleClient 10200 ''b''
                (run sampleClient [Submit 10000 ''a''] initWorld))
      = [(1, \<lparr>callback = SendRequestsFn, delay = 1000\<rparr>)]"
proof -
  let ?w = "run sampleClient [Submit 10000 ''a''] initWorld :: string world"
  have w: "?w = \<lparr>manager = \<lparr>queue = [''a''], nextReq = 0, timeout = Some 1\<rparr>,
      timers = [(1, \<lparr>callback = SendRequestsFn, delay = 1000\<rparr>)], nextHandle = 2,
      aborted = [], nextController = 0, inflight = [], issued = [], uncaught = []\<rparr>"
    by code_simp
  have armed: "timeout (manager ?w) \<noteq> None" unfolding w by simp
  have "length (dispatchTimers
        (run sampleClient [Submit 10000 ''a'', Submit 10200 ''b'', Submit 10400 ''c'']
           initWorld)) \<le> 1
     \<and> setRequest sampleClient 10200 ''b'' ?w
        = ?w\<lparr>manager := (manager ?w)\<lparr>queue := queue (manager ?w) @ [''b'']\<rparr>\<rparr>
     \<and> timers (setRequest sampleClient 10200 ''b'' ?w) = timers ?w"
    using single_flight_timer[of sampleClient
        "[Submit 10000 ''a'', Submit 10200 ''b'', Submit 10400 ''c'']" ?w 10200 "''b''"] armed
    by blast
  then show ?thesis using armed unfolding w by simp
qed

subsection \<open>The arming delay\<close>

lemma setRequest_fresh:
  assumes "timeout (manager w) = None"
  shows "setRequest c now d w =
     w\<lparr>manager := (manager w)\<lparr>queue := queue (manager w) @ [d],
                                timeout := Some (nextHandle w)\<rparr>,
       timers := timers w @ [(nextHandle w,
          \<lparr>callback = SendRequestsFn,
           delay = (if nextReq (manager w) < now then requestInterval c
                    else nextReq (manager w) - now)\<rparr>)],
       nextHandle := nextHandle w + 1\<rparr>"
  using assms unfolding setRequest_def setTimeout_def Let_def by simp

text \<open>
  With the handle unset, a submission arms one dispatch timer; its delay is the request
  interval when the watermark is before the current time and the distance to the watermark
  otherwise.  On runs without a direct call of the dispatch method the watermark never
  changes.
\<close>

lemma setRequest_unset_handle:
  "(timeout (manager w) = None \<longrightarrow>
      timers (setRequest c now d w)
        = timers w @ [(nextHandle w,
            \<lparr>callback = SendRequestsFn,
             delay = (if nextReq (manager w) < now then requestInterval c
                      else nextReq (manager w) - now)\<rparr>)]
      \<and> timeout (manager (setRequest c now d w)) = Some (nextHandle w)
      \<and> queue (manager (setRequest c now d w)) = queue (manager w) @ [d]
      \<and> nextReq (manager (setRequest c now d w)) = nextReq (manager w))
   \<and> (0 < now \<longrightarrow>
        timers (setRequest c now d initWorld)
          = [(1, \<lparr>callback = SendRequestsFn, delay = requestInterval c\<rparr>)])"
proof -
  have "timeout (manager (initWorld :: 'a world)) = None" by (simp add: initWorld_def)
  from setRequest_fresh[OF this, of c now d]
  have "0 < now \<Longrightarrow> timers (setRequest c now d initWorld)
          = [(1, \<lparr>callback = SendRequestsFn, delay = requestInterval c\<rparr>)]"
    by (simp add: initWorld_def)
  then show ?thesis using setRequest_fresh[of w c now d] by simp
qed

lemma nextReq_kept_step:
  assumes "timerDriven e"
  shows "nextReq (manager (step c e w)) = nextReq (manager w)"
proof (cases e)
  case (Submit now d)
  then show ?thesis
    by (cases "timeout (manager w)") (simp_all add: setRequest_def setTimeout_def Let_def)
next
  case (Dispatch now)
  then show ?thesis using assms by simp
next
  case (Fire now k)
  then show ?thesis
    by (auto simp: fireTimer_def clearTimeout_def sendRequests_def abort_def Let_def
        split: option.splits callback.splits)
next
  case (Settle out k)
  then show ?thesis
    by (auto simp: settle_def clearTimeout_def split: option.splits)
qed

lemma nextReq_kept_run:
  "list_all timerDriven es \<Longrightarrow> nextReq (manager (run c es w)) = nextReq (manager w)"
  by (induction es arbitrary: w) (simp_all add: nextReq_kept_step)

text \<open>
  Claim C6 says that a submission that finds no timer armed arms one, with the distance to
  the watermark as delay when the watermark is in the future and the request interval
  otherwise.  The first submission on a new client, at 10000, does so: the delay is the
  request interval, 1000.  After that timer has fired at 11000 no dispatch timer is armed
  and the watermark is still 0, so a submission at 15000 should arm a timer with delay
  1000; it arms none, because the handle of the fired timer is still set.
\<close>

theorem submit_after_fire_arms_no_timer:
  "timers (run sampleClient [Submit 10000 ''a''] initWorld)
     = [(1, \<lparr>callback = SendRequestsFn,
              delay = claimedDelay 0 10000 (requestInterval sampleClient)\<rparr>)]
   \<and> dispatchTimers (run sampleClient [Submit 10000 ''a'', Fire 11000 1] initWorld) = []
   \<and> nextReq (manager (run sampleClient [Submit 10000 ''a'', Fire 11000 1] initWorld)) = 0
   \<and> claimedDelay 0 15000 (requestInterval sampleClient) = 1000
   \<and> timers (run sampleClient [Submit 10000 ''a'', Fire 11000 1, Submit 15000 ''b'']
               initWorld) = []
   \<and> queue (manager (run sampleClient [Submit 10000 ''a'', Fire 11000 1, Submit 15000 ''b'']
               initWorld)) = [''a'', ''b'']"
  by code_simp

subsection \<open>What a dispatch does\<close>

lemma timeout_kept_step:
  assumes "timeout (manager w) = Some h"
  shows "timeout (manager (step c e w)) = Some h"
proof (cases e)
  case (Submit now d)
  then show ?thesis using assms by (simp add: setRequest_def Let_def)
next
  case (Dispatch now)
  then show ?thesis using assms
    by (simp add: sendRequests_def setTimeout_def Let_def)
next
  case (Fire now k)
  then show ?thesis using assms
    by (auto simp: fireTimer_def clearTimeout_def sendRequests_def abort_def Let_def
        split: option.splits callback.splits)
next
  case (Settle out k)
  then show ?thesis using assms
    by (auto simp: settle_def clearTimeout_def split: option.splits)
qed

lemma timeout_kept_run:
  "timeout (manager w) = Some h \<Longrightarrow> timeout (manager (run c es w)) = Some h"
  by (induction es arbitrary: w) (simp_all add: timeout_kept_step)

lemma queue_kept_step: "\<exists>ds. queue (manager (step c e w)) = queue (manager w) @ ds"
proof (cases e)
  case (Submit now d)
  then show ?thesis
    by (cases "timeout (manager w)") (simp_all add: setRequest_def setTimeout_def Let_def)
next
  case (Dispatch now)
  then show ?thesis
    by (simp add: sendRequests_def setTimeout_def Let_def)
next
  case (Fire now k)
  then show ?thesis
    by (auto simp: fireTimer_def clearTimeout_def sendRequests_def abort_def Let_def
        split: option.splits callback.splits)
next
  case (Settle out k)
  then show ?thesis
    by (auto simp: settle_def clearTimeout_def split: option.splits)
qed

lemma queue_kept_run: "\<exists>ds. queue (manager (run c es w)) = queue (manager w) @ ds"
proof (induction es arbitrary: w)
  case Nil
  then show ?case by simp
next
  case (Cons e es)
  obtain d1 where 1: "queue (manager (step c e w)) = queue (manager w) @ d1"
    using queue_kept_step by blast
  obtain d2 where "queue (manager (run c es (step c e w))) = queue (manager (step c e w)) @ d2"
    using Cons.IH by blast
  then have "queue (manager (run c (e # es) w)) = queue (manager w) @ (d1 @ d2)"
    using 1 by simp
  then show ?case by blast
qed

text \<open>
  Claim C1 says that the timer handle is reset once the transport call has settled, so that
  the next submission arms a new timer.  The code never resets the handle
  (\<open>timeout_kept_run\<close>).  First run: a submission at 10000 arms timer 1, the timer fires
  at 11000, and a submission at 15000 is appended with no timer armed.  Second run: in
  addition the dispatch method runs on the client at 11000 and its transport call settles;
  the submission at 15000 still finds handle 1 and arms nothing.
\<close>

theorem timer_handle_never_released:
  "run sampleClient [Submit 10000 ''a'', Fire 11000 1, Submit 15000 ''b''] initWorld
     = \<lparr>manager = \<lparr>queue = [''a'', ''b''], nextReq = 0, timeout = Some 1\<rparr>,
        timers = [], nextHandle = 2, aborted = [], nextController = 0,
        inflight = [], issued = [], uncaught = [TypeError]\<rparr>
   \<and> run sampleClient [Submit 10000 ''a'', Fire 11000 1, Dispatch 11000,
                         Settle Fulfilled 0, Submit 15000 ''b''] initWorld
     = \<lparr>manager = \<lparr>queue = [''a'', ''b''], nextReq = 12000, timeout = Some 1\<rparr>,
        timers = [], nextHandle = 3, aborted = [], nextController = 1,
        inflight = [], issued = [fixedCall], uncaught = [TypeError]\<rparr>"
  by code_simp

text \<open>
  Claim C3 says that when the dispatch timer fires the watermark is set to the current time
  plus the request interval before the transport call is issued.  The timer holds the
  method without its receiver, so the method runs with the timer as \<^verbatim>\<open>this\<close> and throws
  at its first statement: after the timer of a submission at 10000 has fired at 11000 the
  watermark is still 0 and no transport call has been issued.  Called on the client, the
  same method does set the watermark to 12000 and issues the call.
\<close>

theorem dispatch_timer_callback_throws:
  "run sampleClient [Submit 10000 ''a'', Fire 11000 1] initWorld
     = \<lparr>manager = \<lparr>queue = [''a''], nextReq = 0, timeout = Some 1\<rparr>,
        timers = [], nextHandle = 2, aborted = [], nextController = 0,
        inflight = [], issued = [], uncaught = [TypeError]\<rparr>
   \<and> sendRequests sampleClient (This_timer 1) 11000
        (run sampleClient [Submit 10000 ''a''] (initWorld :: string world)) = Inl TypeError
   \<and> sendRequests sampleClient This_client 11000
        (run sampleClient [Submit 10000 ''a''] initWorld)
     = Inr \<lparr>manager = \<lparr>queue = [''a''], nextReq = 12000, timeout = Some 1\<rparr>,
        timers = [(1, \<lparr>callback = SendRequestsFn, delay = 1000\<rparr>),
                  (2, \<lparr>callback = AbortFn, delay = 10000\<rparr>)],
        nextHandle = 3, aborted = [], nextController = 1,
        inflight = [(fixedCall, 2)], issued = [fixedCall], uncaught = []\<rparr>"
  by code_simp

text \<open>
  Claim C4 says that the dispatch issues one transport call carrying the queued descriptors
  and clears the queue.  With two descriptors queued, the firing timer issues no call at
  all; the dispatch method called on the client issues one call, which is the same fixed
  query whatever the queue holds, and leaves the queue as it was (\<open>queue_kept_run\<close>), so
  that a second dispatch finds the same two descriptors.
\<close>

theorem dispatch_ignores_queue:
  "issued (run sampleClient [Submit 10000 ''a'', Submit 10200 ''b'', Fire 11000 1]
             initWorld) = []
   \<and> queue (manager (run sampleClient [Submit 10000 ''a'', Submit 10200 ''b'', Fire 11000 1]
             initWorld)) = [''a'', ''b'']
   \<and> issued (run sampleClient [Submit 10000 ''a'', Submit 10200 ''b'', Dispatch 11000]
             initWorld) = [fixedCall]
   \<and> queue (manager (run sampleClient [Submit 10000 ''a'', Submit 10200 ''b'', Dispatch 11000]
             initWorld)) = [''a'', ''b'']
   \<and> issued (run sampleClient [Submit 10000 ''c'', Dispatch 11000] initWorld) = [fixedCall]
   \<and> issued (run sampleClient [Submit 10000 ''a'', Submit 10200 ''b'', Dispatch 11000,
                               Settle Fulfilled 0, Dispatch 12000] initWorld)
       = [fixedCall, fixedCall\<lparr>signal := 1\<rparr>]
   \<and> queue (manager (run sampleClient [Submit 10000 ''a'', Submit 10200 ''b'', Dispatch 11000,
                               Settle Fulfilled 0, Dispatch 12000] initWorld))
       = [''a'', ''b'']"
  by code_simp

text \<open>
  Claim C5 says that every dispatch starts a cancellation timer for requestTimeout, that
  the timer aborts a call that has not settled, and that it is disarmed when the call
  settles.  When the dispatch timer fires, no cancellation timer is started.  When the
  dispatch method is called on the client, the cancellation timer is armed with delay
  10000 and is cleared when the call settles; but when it fires at 21000 the abort
  function runs without its controller and throws: no signal is aborted and the call is
  still in flight.  Calling abort on the controller itself would abort signal 0.
\<close>

theorem cancellation_timer_cannot_abort:
  "timers (run sampleClient [Submit 10000 ''a'', Fire 11000 1] initWorld) = []
   \<and> run sampleClient [Dispatch 11000] (initWorld :: string world)
     = \<lparr>manager = \<lparr>queue = [], nextReq = 12000, timeout = None\<rparr>,
        timers = [(1, \<lparr>callback = AbortFn, delay = 10000\<rparr>)],
        nextHandle = 2, aborted = [], nextController = 1,
        inflight = [(fixedCall, 1)], issued = [fixedCall], uncaught = []\<rparr>
   \<and> run sampleClient [Dispatch 11000, Fire 21000 1] (initWorld :: string world)
     = \<lparr>manager = \<lparr>queue = [], nextReq = 12000, timeout = None\<rparr>,
        timers = [], nextHandle = 2, aborted = [], nextController = 1,
        inflight = [(fixedCall, 1)], issued = [fixedCall], uncaught = [TypeError]\<rparr>
   \<and> abort (This_controller 0) (run sampleClient [Dispatch 11000] (initWorld :: string world))
     = Inr \<lparr>manager = \<lparr>queue = [], nextReq = 12000, timeout = None\<rparr>,
        timers = [(1, \<lparr>callback = AbortFn, delay = 10000\<rparr>)],
        nextHandle = 2, aborted = [0], nextController = 1,
        inflight = [(fixedCall, 1)], issued = [fixedCall], uncaught = []\<rparr>
   \<and> timers (run sampleClient [Dispatch 11000, Settle Rejected 0] (initWorld :: string world))
     = []"
  by code_simp

end
